theory Spec2Isabelle
  imports
    Main
    "HOL-Library.Char_ord"
    "HOL-Library.List_Lexorder"
    "HOL-Library.Product_Lexorder"
    "HOL-Library.Log_Nat"
    "HOL-Library.Multiset"
begin

section \<open>Data model of the worker (src/tg-bot-worker/src/index.ts)\<close>

text \<open>
  The worker keeps all of its state in four SQL tables (games, players, buyins,
  approvals). A table is a list of rows in insertion order; the store is a record of
  the four tables. Integer columns are \<open>int\<close>, TEXT columns holding a user id are
  \<open>string\<close>, a nullable column is an \<open>option\<close>.

  The columns \<open>games.chat_id\<close> and \<open>games.status_message_id\<close> are TEXT columns
  that the worker only ever writes as \<open>String(n)\<close> of a number and reads back with
  \<open>Number(...)\<close>; they are kept as the integer they denote.
\<close>

datatype game_status = Active | Ended

datatype buyin_status = Pending | Approved | Rejected

datatype decision = Approve | Reject

record TgUser =
  u_id :: int
  u_username :: "string option"
  u_first_name :: "string option"

record ActionResult =
  ok :: bool
  message :: "string option"

record GameRow =
  g_id :: int
  g_chat_id :: int
  g_status :: game_status
  g_started_at :: int
  g_ended_at :: "int option"
  g_buy_in_cents :: int
  g_status_message_id :: "int option"

record player_rec =
  pl_id :: int
  pl_game_id :: int
  pl_user_id :: string
  pl_username :: "string option"
  pl_first_name :: "string option"
  pl_joined_at :: int

record buyin_rec =
  b_id :: int
  b_game_id :: int
  b_user_id :: string
  b_amount_cents :: int
  b_created_at :: int
  b_status :: buyin_status

record approval_rec =
  a_id :: int
  a_buyin_id :: int
  a_approver_user_id :: string
  a_decision :: decision
  a_created_at :: int

record DB =
  games :: "GameRow list"
  players :: "player_rec list"
  buyins :: "buyin_rec list"
  approvals :: "approval_rec list"

record PlayerRow =
  pr_user_id :: string
  pr_username :: string
  pr_first_name :: string
  pr_approved_cents :: int
  pr_pending_count :: int

record PendingRow =
  pd_id :: int
  pd_user_id :: string
  pd_username :: string
  pd_first_name :: string
  pd_amount_cents :: int
  pd_approvals :: int
  pd_rejects :: int

record GameState =
  st_players :: "PlayerRow list"
  st_pending :: "PendingRow list"

definition APPROVALS_REQUIRED :: int where
  "APPROVALS_REQUIRED = 1"

definition MAX_PENDING_ROWS_IN_KEYBOARD :: nat where
  "MAX_PENDING_ROWS_IN_KEYBOARD = 5"

section \<open>Numbers as text\<close>

text \<open>
  \<open>String(n)\<close> of an integer is its decimal text (for magnitudes below \<open>10^21\<close>,
  which covers every Telegram id and every row id).
\<close>

definition digit :: "nat \<Rightarrow> char" where
  "digit d = ''0123456789'' ! (d mod 10)"

fun digits :: "nat \<Rightarrow> string" where
  "digits n = (if n < 10 then [digit n] else digits (n div 10) @ [digit (n mod 10)])"

declare digits.simps [simp del]

definition js_String :: "int \<Rightarrow> string" where
  "js_String i = (if i < 0 then CHR ''-'' # digits (nat (- i)) else digits (nat i))"

section \<open>Display labels\<close>

text \<open>
  \<open>maskUser\<close>: \<open>s.slice(0, 2)\<close> is \<open>take 2 s\<close> and \<open>s.slice(-2)\<close> is the last two
  characters. \<open>displayName\<close> tests its first two arguments for truthiness: an empty
  string is falsy.
\<close>

definition maskUser :: "string \<Rightarrow> string" where
  "maskUser s =
     (if length s \<le> 4 then s
      else take 2 s @ ''***'' @ drop (length s - 2) s)"

definition displayName :: "string \<Rightarrow> string \<Rightarrow> string \<Rightarrow> string" where
  "displayName username firstName fallback =
     (if username \<noteq> [] then CHR ''@'' # username
      else if firstName \<noteq> [] then firstName
      else maskUser fallback)"

section \<open>Amounts: the regular expression, parseFloat and toCents\<close>

text \<open>
  \<open>argText.match(/(\d+(?:\.\d+)?)/)\<close>: the leftmost match of a run of digits,
  greedily followed by a point and a further run of digits when there is one. The match
  is returned as the integer digits and the fraction digits (empty without a fraction).
\<close>

definition is_digit :: "char \<Rightarrow> bool" where
  "is_digit c = (CHR ''0'' \<le> c \<and> c \<le> CHR ''9'')"

fun match_amount :: "string \<Rightarrow> (string \<times> string) option" where
  "match_amount [] = None"
| "match_amount (c # cs) =
     (if is_digit c then
        (let ip = takeWhile is_digit (c # cs);
             rest = dropWhile is_digit (c # cs)
         in case rest of
              [] \<Rightarrow> Some (ip, [])
            | d # r \<Rightarrow>
                if d = CHR ''.'' \<and> takeWhile is_digit r \<noteq> []
                then Some (ip, takeWhile is_digit r)
                else Some (ip, []))
      else match_amount cs)"

definition digit_val :: "char \<Rightarrow> nat" where
  "digit_val c = of_char c - of_char CHR ''0''"

definition dec_value :: "string \<Rightarrow> nat" where
  "dec_value ds = foldl (\<lambda>a c. 10 * a + digit_val c) 0 ds"

definition decimal_of :: "string \<times> string \<Rightarrow> rat" where
  "decimal_of m = of_nat (dec_value (fst m)) + of_nat (dec_value (snd m)) / 10 ^ length (snd m)"

text \<open>
  A JavaScript number is an IEEE-754 double. A finite double is kept as the rational it
  denotes; \<open>fl\<close> rounds a rational to the nearest double, ties to the even
  significand (53 bits, smallest exponent -1022). Magnitudes from \<open>2^1024\<close> on,
  where JavaScript yields Infinity, are outside this model.
\<close>

definition pow2 :: "int \<Rightarrow> rat" where
  "pow2 e = (if 0 \<le> e then 2 ^ nat e else 1 / 2 ^ nat (- e))"

definition ilog2 :: "rat \<Rightarrow> int" where
  "ilog2 x =
     (let e = bitlen (fst (quotient_of x)) - bitlen (snd (quotient_of x))
      in if pow2 e \<le> x then e else e - 1)"

definition round_ties_even :: "rat \<Rightarrow> int" where
  "round_ties_even x =
     (let f = \<lfloor>x\<rfloor>; d = x - of_int f
      in if d < 1 / 2 then f
         else if 1 / 2 < d then f + 1
         else if even f then f else f + 1)"

definition fl :: "rat \<Rightarrow> rat" where
  "fl x =
     (if x = 0 then 0
      else
        (let a = \<bar>x\<bar>;
             u = pow2 (max (ilog2 a) (- 1022) - 52);
             r = of_int (round_ties_even (a / u)) * u
         in if x < 0 then - r else r))"

definition parseFloat :: "string \<times> string \<Rightarrow> rat" where
  "parseFloat m = fl (decimal_of m)"

text \<open>\<open>Math.round(x)\<close> is the integer nearest to \<open>x\<close>, the upper one on a tie.\<close>

definition Math_round :: "rat \<Rightarrow> int" where
  "Math_round x = \<lfloor>x + 1 / 2\<rfloor>"

definition toCents :: "rat \<Rightarrow> int" where
  "toCents n = Math_round (fl (n * 100))"

text \<open>
  \<open>fmtMoney = (cents / 100).toFixed(2)\<close>. The quotient is a double, \<open>fl\<close> of the
  exact quotient. \<open>toFixed(2)\<close> prints the integer \<open>n\<close> for which \<open>n / 100\<close> is
  nearest to the magnitude of that double (the larger one on a tie) with a point before
  its last two digits, after a minus sign when the double is negative. From \<open>10^21\<close> on
  JavaScript prints in exponent form, which is outside this model.
\<close>

definition fmtMoney :: "int \<Rightarrow> string" where
  "fmtMoney cents =
     (let x = fl (of_int cents / 100);
          n = nat \<lfloor>\<bar>x\<bar> * 100 + 1 / 2\<rfloor>;
          body = digits (n div 100) @ ''.'' @ [digit (n mod 100 div 10), digit (n mod 10)]
      in if x < 0 then CHR ''-'' # body else body)"

section \<open>Queries\<close>

text \<open>
  An AUTOINCREMENT key is one more than the largest key the table has held; no row is
  ever deleted, so that is the largest key present (1 for an empty table).
\<close>

definition next_rowid :: "int list \<Rightarrow> int" where
  "next_rowid ids = fold max ids 0 + 1"

definition activeGames :: "DB \<Rightarrow> int \<Rightarrow> GameRow list" where
  "activeGames db chatId =
     filter (\<lambda>g. g_chat_id g = chatId \<and> g_status g = Active) (games db)"

fun greatest_id :: "GameRow list \<Rightarrow> GameRow option" where
  "greatest_id [] = None"
| "greatest_id (g # gs) =
     (case greatest_id gs of
        None \<Rightarrow> Some g
      | Some h \<Rightarrow> if g_id g < g_id h then Some h else Some g)"

definition currentGame :: "DB \<Rightarrow> int \<Rightarrow> GameRow option" where
  "currentGame db chatId = greatest_id (activeGames db chatId)"

definition getGameById :: "DB \<Rightarrow> int \<Rightarrow> GameRow option" where
  "getGameById db i = find (\<lambda>g. g_id g = i) (games db)"

definition find_player :: "DB \<Rightarrow> int \<Rightarrow> string \<Rightarrow> player_rec option" where
  "find_player db gameId userId =
     find (\<lambda>p. pl_game_id p = gameId \<and> pl_user_id p = userId) (players db)"

definition find_buyin :: "DB \<Rightarrow> int \<Rightarrow> buyin_rec option" where
  "find_buyin db buyinId = find (\<lambda>b. b_id b = buyinId) (buyins db)"

definition count_decision :: "DB \<Rightarrow> int \<Rightarrow> decision \<Rightarrow> int" where
  "count_decision db buyinId d =
     int (length (filter (\<lambda>a. a_buyin_id a = buyinId \<and> a_decision a = d) (approvals db)))"

section \<open>Statements that write\<close>

definition insert_game :: "DB \<Rightarrow> int \<Rightarrow> int \<Rightarrow> int \<Rightarrow> int \<times> DB" where
  "insert_game db chatId started cents =
     (let gid = next_rowid (map g_id (games db))
      in (gid,
          db\<lparr>games := games db @
            [\<lparr>g_id = gid, g_chat_id = chatId, g_status = Active, g_started_at = started,
              g_ended_at = None, g_buy_in_cents = cents, g_status_message_id = None\<rparr>]\<rparr>))"

definition or_null :: "string option \<Rightarrow> string option" where
  "or_null v = (case v of None \<Rightarrow> None | Some t \<Rightarrow> if t = [] then None else Some t)"

definition insert_player :: "DB \<Rightarrow> int \<Rightarrow> TgUser \<Rightarrow> int \<Rightarrow> DB" where
  "insert_player db gameId user joined =
     db\<lparr>players := players db @
       [\<lparr>pl_id = next_rowid (map pl_id (players db)), pl_game_id = gameId,
         pl_user_id = js_String (u_id user), pl_username = or_null (u_username user),
         pl_first_name = or_null (u_first_name user), pl_joined_at = joined\<rparr>]\<rparr>"

definition insert_buyin :: "DB \<Rightarrow> int \<Rightarrow> string \<Rightarrow> int \<Rightarrow> int \<Rightarrow> DB" where
  "insert_buyin db gameId userId cents created =
     db\<lparr>buyins := buyins db @
       [\<lparr>b_id = next_rowid (map b_id (buyins db)), b_game_id = gameId, b_user_id = userId,
         b_amount_cents = cents, b_created_at = created, b_status = Pending\<rparr>]\<rparr>"

text \<open>
  The approvals table is declared UNIQUE (buyin_id, approver_user_id): an INSERT of a
  second row for the same pair raises, and \<open>processApproval\<close> catches and ignores the
  exception. The statement together with its \<open>try/catch\<close> therefore leaves the table
  as it is when the pair is present.
\<close>

definition has_vote :: "DB \<Rightarrow> int \<Rightarrow> string \<Rightarrow> bool" where
  "has_vote db buyinId approver =
     (find (\<lambda>a. a_buyin_id a = buyinId \<and> a_approver_user_id a = approver) (approvals db)
        \<noteq> None)"

definition insert_approval :: "DB \<Rightarrow> int \<Rightarrow> string \<Rightarrow> decision \<Rightarrow> int \<Rightarrow> DB" where
  "insert_approval db buyinId approver d created =
     (if has_vote db buyinId approver
      then db
      else db\<lparr>approvals := approvals db @
        [\<lparr>a_id = next_rowid (map a_id (approvals db)), a_buyin_id = buyinId,
          a_approver_user_id = approver, a_decision = d, a_created_at = created\<rparr>]\<rparr>)"

text \<open>\<open>UPDATE buyins SET status=? WHERE id=?\<close>\<close>

definition update_buyin_status :: "DB \<Rightarrow> int \<Rightarrow> buyin_status \<Rightarrow> DB" where
  "update_buyin_status db buyinId st =
     db\<lparr>buyins := map (\<lambda>b. if b_id b = buyinId then b\<lparr>b_status := st\<rparr> else b) (buyins db)\<rparr>"

text \<open>\<open>UPDATE games SET status='ended', ended_at=? WHERE id=?\<close>\<close>

definition update_game_ended :: "DB \<Rightarrow> int \<Rightarrow> int \<Rightarrow> DB" where
  "update_game_ended db gameId ended =
     db\<lparr>games := map (\<lambda>g. if g_id g = gameId
                           then g\<lparr>g_status := Ended, g_ended_at := Some ended\<rparr> else g)
                    (games db)\<rparr>"

text \<open>\<open>UPDATE games SET status_message_id=? WHERE id=?\<close>\<close>

definition update_status_message :: "DB \<Rightarrow> int \<Rightarrow> int \<Rightarrow> DB" where
  "update_status_message db gameId mid =
     db\<lparr>games := map (\<lambda>g. if g_id g = gameId then g\<lparr>g_status_message_id := Some mid\<rparr> else g)
                    (games db)\<rparr>"

section \<open>The projected view: composeGameState\<close>

text \<open>
  Both queries group the joined rows by a key of the left table. The players table is
  declared UNIQUE (game_id, user_id) and buyins.id is the primary key, so every group
  is one row of the left table joined to its matches: a roster row with the buy-ins of
  that user in that game, a pending buy-in with its votes and the requester's roster
  row. \<open>COALESCE(x, '')\<close> turns a NULL text into the empty text.

  \<open>ORDER BY approved_cents DESC, username\<close> sorts by the total, largest first, and
  then by the \<open>username\<close> result column in the bytewise order of TEXT. SQL leaves
  the order of rows with equal keys open; SQLite forms the groups of
  \<open>GROUP BY p.user_id\<close> in the order of \<open>user_id\<close> and its sort keeps rows with
  equal keys in that order, which is what the model does. No theorem below depends on
  the order of rows with equal keys.
\<close>

definition coalesce :: "string option \<Rightarrow> string" where
  "coalesce v = (case v of None \<Rightarrow> [] | Some t \<Rightarrow> t)"

definition player_row :: "DB \<Rightarrow> player_rec \<Rightarrow> PlayerRow" where
  "player_row db p =
     (let bs = filter (\<lambda>b. b_game_id b = pl_game_id p \<and> b_user_id b = pl_user_id p) (buyins db)
      in \<lparr>pr_user_id = pl_user_id p,
          pr_username = coalesce (pl_username p),
          pr_first_name = coalesce (pl_first_name p),
          pr_approved_cents =
            sum_list (map (\<lambda>b. if b_status b = Approved then b_amount_cents b else 0) bs),
          pr_pending_count =
            sum_list (map (\<lambda>b. if b_status b = Pending then 1 else 0) bs)\<rparr>)"

definition player_key :: "PlayerRow \<Rightarrow> int \<times> string" where
  "player_key r = (- pr_approved_cents r, pr_username r)"

definition playersData :: "DB \<Rightarrow> int \<Rightarrow> PlayerRow list" where
  "playersData db gameId =
     sort_key player_key
       (sort_key pr_user_id
          (map (player_row db) (filter (\<lambda>p. pl_game_id p = gameId) (players db))))"

definition pending_row :: "DB \<Rightarrow> buyin_rec \<Rightarrow> PendingRow" where
  "pending_row db b =
     (let p = find_player db (b_game_id b) (b_user_id b)
      in \<lparr>pd_id = b_id b,
          pd_user_id = b_user_id b,
          pd_username = (case p of None \<Rightarrow> [] | Some q \<Rightarrow> coalesce (pl_username q)),
          pd_first_name = (case p of None \<Rightarrow> [] | Some q \<Rightarrow> coalesce (pl_first_name q)),
          pd_amount_cents = b_amount_cents b,
          pd_approvals = count_decision db (b_id b) Approve,
          pd_rejects = count_decision db (b_id b) Reject\<rparr>)"

definition pendingData :: "DB \<Rightarrow> int \<Rightarrow> PendingRow list" where
  "pendingData db gameId =
     sort_key pd_id
       (map (pending_row db)
          (filter (\<lambda>b. b_game_id b = gameId \<and> b_status b = Pending) (buyins db)))"

definition composeGameState :: "DB \<Rightarrow> int \<Rightarrow> GameState" where
  "composeGameState db gameId =
     \<lparr>st_players = playersData db gameId, st_pending = pendingData db gameId\<rparr>"

section \<open>Rendering: buildStatusText and buildStatusKeyboard\<close>

definition player_line :: "PlayerRow \<Rightarrow> string" where
  "player_line player =
     (let label = displayName (pr_username player) (pr_first_name player) (pr_user_id player);
          pendingText =
            (if pr_pending_count player \<noteq> 0
             then '' (pending '' @ js_String (pr_pending_count player) @ '')''
             else [])
      in ''- '' @ label @ '': '' @ fmtMoney (pr_approved_cents player) @ pendingText)"

definition pending_line :: "PendingRow \<Rightarrow> string" where
  "pending_line pending =
     (let label = displayName (pd_username pending) (pd_first_name pending) (pd_user_id pending)
      in ''#'' @ js_String (pd_id pending) @ '' '' @ label @ '' - '' @
         fmtMoney (pd_amount_cents pending) @ '' ('' @ js_String (pd_approvals pending) @
         ''/'' @ js_String APPROVALS_REQUIRED @ '')'')"

definition status_lines :: "GameRow \<Rightarrow> GameState \<Rightarrow> string list" where
  "status_lines game state =
     [if g_status game = Ended then ''*Game ended*'' else ''*Poker Night*'',
      ''Buy-in: '' @ fmtMoney (g_buy_in_cents game),
      []]
     @ (if st_players state = [] then [''_No players yet._'']
        else ''*Players*'' # map player_line (st_players state))
     @ (if st_pending state \<noteq> []
        then [[], ''*Pending buy-ins*''] @ map pending_line (st_pending state)
        else [])
     @ (if g_status game = Ended
        then [[], ''Start a new game with /startgame <amount>.'']
        else [])"

fun join_lines :: "string list \<Rightarrow> string" where
  "join_lines [] = []"
| "join_lines [l] = l"
| "join_lines (l # ls) = l @ [CHR 0x0A] @ join_lines ls"

definition buildStatusText :: "GameRow \<Rightarrow> GameState \<Rightarrow> string" where
  "buildStatusText game state = join_lines (status_lines game state)"

record button =
  bt_text :: string
  bt_callback_data :: string

text \<open>\<open>encodeAction\<close> is \<open>JSON.stringify\<close> of an object with the action tag \<open>t\<close> and,
  for the two voting actions, the request \<open>id\<close>.\<close>

definition encodeAction :: "string \<Rightarrow> int option \<Rightarrow> string" where
  "encodeAction t i =
     ''{'' @ [CHR 0x22] @ ''t'' @ [CHR 0x22] @ '':'' @ [CHR 0x22] @ t @ [CHR 0x22] @
     (case i of
        None \<Rightarrow> []
      | Some n \<Rightarrow> '','' @ [CHR 0x22] @ ''id'' @ [CHR 0x22] @ '':'' @ js_String n)
     @ ''}''"

definition pending_buttons :: "PendingRow \<Rightarrow> button list" where
  "pending_buttons pending =
     [\<lparr>bt_text = ''Approve #'' @ js_String (pd_id pending) @ '' ('' @
         js_String (pd_approvals pending) @ ''/'' @ js_String APPROVALS_REQUIRED @ '')'',
       bt_callback_data = encodeAction ''approve'' (Some (pd_id pending))\<rparr>,
      \<lparr>bt_text = ''Reject #'' @ js_String (pd_id pending) @ '' ('' @
         js_String (pd_rejects pending) @ ''/'' @ js_String APPROVALS_REQUIRED @ '')'',
       bt_callback_data = encodeAction ''reject'' (Some (pd_id pending))\<rparr>]"

definition buildStatusKeyboard :: "GameRow \<Rightarrow> GameState \<Rightarrow> button list list option" where
  "buildStatusKeyboard game state =
     (if g_status game \<noteq> Active then None
      else Some
        ([[\<lparr>bt_text = ''Join game'', bt_callback_data = encodeAction ''join'' None\<rparr>,
           \<lparr>bt_text = ''Buy-in ('' @ fmtMoney (g_buy_in_cents game) @ '')'',
             bt_callback_data = encodeAction ''buyin'' None\<rparr>],
          [\<lparr>bt_text = ''Refresh'', bt_callback_data = encodeAction ''refresh'' None\<rparr>,
           \<lparr>bt_text = ''End game'', bt_callback_data = encodeAction ''end'' None\<rparr>]]
         @ map pending_buttons (take MAX_PENDING_ROWS_IN_KEYBOARD (st_pending state))))"

section \<open>Publishing the status message: refreshGameMessage\<close>

text \<open>
  The Telegram API is outside the program. What it answers during one operation is an
  input of the model: whether \<open>editMessageText\<close> succeeds, and what \<open>sendMessage\<close>
  returns (an error, which \<open>callTelegram\<close> throws, or a result with or without a
  \<open>message_id\<close>). \<open>w_now\<close> is the clock read by \<open>now()\<close>. Every function returns
  the calls it made to the API, in order, next to its result and the new store.
\<close>

datatype tg_reply = TgError | TgResult "int option"

record World =
  w_now :: int
  w_edit_ok :: bool
  w_send :: tg_reply

record payload =
  p_chat_id :: int
  p_text :: string
  p_reply_markup :: "button list list option"

datatype tg_call = EditMessageText int payload | SendMessage payload

text \<open>
  \<open>sendStatus\<close> is the last block of \<open>refreshGameMessage\<close>: the message is
  sent, and the identifier of the new message is recorded on the session when the reply
  carries a truthy one. \<open>status_payload\<close> is the \<open>payload\<close> the function builds
  (its text and its keyboard; the constant formatting options are left out).
\<close>

definition sendStatus :: "DB \<Rightarrow> World \<Rightarrow> GameRow \<Rightarrow> payload \<Rightarrow> tg_call list \<Rightarrow>
    bool \<times> DB \<times> tg_call list" where
  "sendStatus db w game pl calls =
     (case w_send w of
        TgError \<Rightarrow> (False, db, calls @ [SendMessage pl])
      | TgResult None \<Rightarrow> (False, db, calls @ [SendMessage pl])
      | TgResult (Some mid) \<Rightarrow>
          if mid \<noteq> 0
          then (True, update_status_message db (g_id game) mid, calls @ [SendMessage pl])
          else (False, db, calls @ [SendMessage pl]))"

definition status_payload :: "DB \<Rightarrow> int \<Rightarrow> GameRow \<Rightarrow> payload" where
  "status_payload db chatId game =
     (let state = composeGameState db (g_id game)
      in \<lparr>p_chat_id = chatId, p_text = buildStatusText game state,
          p_reply_markup = buildStatusKeyboard game state\<rparr>)"

definition refreshGameMessage :: "DB \<Rightarrow> World \<Rightarrow> int \<Rightarrow> GameRow option \<Rightarrow> bool \<Rightarrow>
    bool \<times> DB \<times> tg_call list" where
  "refreshGameMessage db w chatId providedGame allowCreate =
     (case (case providedGame of Some g \<Rightarrow> Some g | None \<Rightarrow> currentGame db chatId) of
        None \<Rightarrow> (False, db, [])
      | Some game \<Rightarrow>
          (let pl = status_payload db chatId game
           in case g_status_message_id game of
                Some messageId \<Rightarrow>
                  if w_edit_ok w then (True, db, [EditMessageText messageId pl])
                  else if \<not> allowCreate then (False, db, [EditMessageText messageId pl])
                  else sendStatus db w game pl [EditMessageText messageId pl]
              | None \<Rightarrow>
                  if \<not> allowCreate then (False, db, [])
                  else sendStatus db w game pl []))"

section \<open>The operations\<close>

text \<open>
  Each operation is a function from the store it finds, the answers of the outside
  world and its arguments to its \<open>ActionResult\<close>, the store it leaves and the calls
  it made to the API. Each function is one invocation running from its first statement
  to its last with no other invocation writing in between; invocations that overlap are
  treated after the operations.
\<close>

definition failure :: "string \<Rightarrow> ActionResult" where
  "failure m = \<lparr>ok = False, message = Some m\<rparr>"

definition success :: "string \<Rightarrow> ActionResult" where
  "success m = \<lparr>ok = True, message = Some m\<rparr>"

definition startGame :: "DB \<Rightarrow> World \<Rightarrow> int \<Rightarrow> string \<Rightarrow> ActionResult \<times> DB \<times> tg_call list" where
  "startGame db w chatId argText =
     (if activeGames db chatId \<noteq> []
      then (failure ''There is already an active game in this chat.'', db, [])
      else case match_amount argText of
        None \<Rightarrow>
          (failure ''Usage: /startgame <buy-in amount>. Example: /startgame 50'', db, [])
      | Some m \<Rightarrow>
          (let numeric = parseFloat m
           in if \<not> 0 < numeric
              then (failure ''Buy-in must be greater than zero.'', db, [])
              else
                (let buyInCents = toCents numeric;
                     (gid, db1) = insert_game db chatId (w_now w) buyInCents
                 in case getGameById db1 gid of
                      Some game \<Rightarrow>
                        (let (b, db2, calls) = refreshGameMessage db1 w chatId (Some game) True
                         in (success ''Game started.'', db2, calls))
                    | None \<Rightarrow> (success ''Game started.'', db1, []))))"

definition joinGame :: "DB \<Rightarrow> World \<Rightarrow> int \<Rightarrow> TgUser \<Rightarrow> ActionResult \<times> DB \<times> tg_call list" where
  "joinGame db w chatId user =
     (case currentGame db chatId of
        None \<Rightarrow> (failure ''No active game. Use /startgame first.'', db, [])
      | Some game \<Rightarrow>
          if find_player db (g_id game) (js_String (u_id user)) \<noteq> None
          then (failure ''You are already part of this game.'', db, [])
          else
            (let db1 = insert_player db (g_id game) user (w_now w);
                 (b, db2, calls) = refreshGameMessage db1 w chatId (Some game) True
             in (success ''Joined the game.'', db2, calls)))"

text \<open>\<open>trim()\<close> removes white space at both ends (the ASCII white space here).\<close>

definition is_space :: "char \<Rightarrow> bool" where
  "is_space c = (c \<in> set [CHR 0x09, CHR 0x0A, CHR 0x0B, CHR 0x0C, CHR 0x0D, CHR 0x20])"

definition js_trim :: "string \<Rightarrow> string" where
  "js_trim t = rev (dropWhile is_space (rev (dropWhile is_space t)))"

text \<open>
  The amount of a buy-in: from the text when a non-blank one is given (\<open>Inl\<close> carries
  the error message), else the default of the game.
\<close>

definition buyin_cents :: "GameRow \<Rightarrow> string option \<Rightarrow> string + int" where
  "buyin_cents game argText =
     (case map_option js_trim argText of
        None \<Rightarrow> Inr (g_buy_in_cents game)
      | Some trimmed \<Rightarrow>
          if trimmed = [] then Inr (g_buy_in_cents game)
          else (case match_amount trimmed of
                  None \<Rightarrow> Inl ''Usage: /buyin <amount>. Example: /buyin 50''
                | Some m \<Rightarrow>
                    if \<not> 0 < parseFloat m then Inl ''Amount must be greater than zero.''
                    else Inr (toCents (parseFloat m))))"

definition buyIn :: "DB \<Rightarrow> World \<Rightarrow> int \<Rightarrow> TgUser \<Rightarrow> string option \<Rightarrow>
    ActionResult \<times> DB \<times> tg_call list" where
  "buyIn db w chatId user argText =
     (case currentGame db chatId of
        None \<Rightarrow> (failure ''No active game. Use /startgame first.'', db, [])
      | Some game \<Rightarrow>
          if find_player db (g_id game) (js_String (u_id user)) = None
          then (failure ''Please join the game before buying in.'', db, [])
          else case buyin_cents game argText of
            Inl msg \<Rightarrow> (failure msg, db, [])
          | Inr cents \<Rightarrow>
              if \<not> 0 < cents
              then (failure
                ''No default buy-in found. Restart the game with /startgame <amount>.'', db, [])
              else
                (let db1 = insert_buyin db (g_id game) (js_String (u_id user)) cents (w_now w);
                     (b, db2, calls) = refreshGameMessage db1 w chatId (Some game) True
                 in (success ''Buy-in submitted for approval.'', db2, calls)))"

text \<open>
  The outcome step of \<open>processApproval\<close>: the tallies are read back after the insert
  and the status is written by an UPDATE keyed on the request id alone.
\<close>

definition resolve_buyin :: "DB \<Rightarrow> int \<Rightarrow> DB \<times> string \<times> bool" where
  "resolve_buyin db buyinId =
     (let approvals = count_decision db buyinId Approve;
          rejects = count_decision db buyinId Reject
      in if APPROVALS_REQUIRED \<le> approvals
         then (update_buyin_status db buyinId Approved,
               ''Buy-in #'' @ js_String buyinId @ '' approved.'', True)
         else if APPROVALS_REQUIRED \<le> rejects
         then (update_buyin_status db buyinId Rejected,
               ''Buy-in #'' @ js_String buyinId @ '' rejected.'', True)
         else (db, ''Vote recorded ('' @ js_String approvals @ ''/'' @
                   js_String APPROVALS_REQUIRED @ '').'', False))"

definition processApproval :: "DB \<Rightarrow> World \<Rightarrow> int \<Rightarrow> int \<Rightarrow> TgUser \<Rightarrow> decision \<Rightarrow>
    ActionResult \<times> DB \<times> tg_call list" where
  "processApproval db w chatId buyinId approver d =
     (if buyinId = 0 then (failure ''Invalid buy-in.'', db, [])
      else case find_buyin db buyinId of
        None \<Rightarrow> (failure ''Buy-in not found.'', db, [])
      | Some buyin \<Rightarrow>
          if b_status buyin \<noteq> Pending then (failure ''Buy-in already resolved.'', db, [])
          else if b_user_id buyin = js_String (u_id approver)
          then (failure ''You cannot vote on your own buy-in.'', db, [])
          else if find_player db (b_game_id buyin) (js_String (u_id approver)) = None
          then (failure ''Only players can approve or reject buy-ins.'', db, [])
          else
            (let db1 = insert_approval db buyinId (js_String (u_id approver)) d (w_now w);
                 (db2, msg, statusChanged) = resolve_buyin db1 buyinId;
                 (b, db3, calls) =
                   (case getGameById db2 (b_game_id buyin) of
                      Some game \<Rightarrow> refreshGameMessage db2 w (g_chat_id game) (Some game) True
                    | None \<Rightarrow> refreshGameMessage db2 w chatId None True)
             in (success msg, db3, calls)))"

definition endGame :: "DB \<Rightarrow> World \<Rightarrow> int \<Rightarrow> ActionResult \<times> DB \<times> tg_call list" where
  "endGame db w chatId =
     (case currentGame db chatId of
        None \<Rightarrow> (failure ''No active game.'', db, [])
      | Some game \<Rightarrow>
          (let db1 = update_game_ended db (g_id game) (w_now w)
           in case getGameById db1 (g_id game) of
                Some updated \<Rightarrow>
                  (let (b, db2, calls) = refreshGameMessage db1 w chatId (Some updated) True
                   in (success ''Game ended.'', db2, calls))
              | None \<Rightarrow> (success ''Game ended.'', db1, [])))"

section \<open>Invocations that overlap\<close>

text \<open>
  Every statement of an operation is awaited on its own, and each incoming event is
  handled by an invocation of its own, so the statements of two invocations can
  interleave. \<open>startGame\<close> and \<open>processApproval\<close> first read the store and decide,
  and then write. Each is given here in these two parts as well: the part up to the last
  read the decision rests on, which returns the failure message or what the second part
  needs, and the part from the first write on. The operation is the first part followed
  at once by the second on the same store; when another invocation writes in between,
  the second part runs on a later store than the one the first part read.
\<close>

definition startGame_check :: "DB \<Rightarrow> int \<Rightarrow> string \<Rightarrow> string + int" where
  "startGame_check db chatId argText =
     (if activeGames db chatId \<noteq> []
      then Inl ''There is already an active game in this chat.''
      else case match_amount argText of
        None \<Rightarrow> Inl ''Usage: /startgame <buy-in amount>. Example: /startgame 50''
      | Some m \<Rightarrow>
          if \<not> 0 < parseFloat m then Inl ''Buy-in must be greater than zero.''
          else Inr (toCents (parseFloat m)))"

definition startGame_write :: "DB \<Rightarrow> World \<Rightarrow> int \<Rightarrow> int \<Rightarrow> ActionResult \<times> DB \<times> tg_call list" where
  "startGame_write db w chatId buyInCents =
     (let (gid, db1) = insert_game db chatId (w_now w) buyInCents
      in case getGameById db1 gid of
           Some game \<Rightarrow>
             (let (b, db2, calls) = refreshGameMessage db1 w chatId (Some game) True
              in (success ''Game started.'', db2, calls))
         | None \<Rightarrow> (success ''Game started.'', db1, []))"

definition approval_check :: "DB \<Rightarrow> int \<Rightarrow> TgUser \<Rightarrow> string + buyin_rec" where
  "approval_check db buyinId approver =
     (if buyinId = 0 then Inl ''Invalid buy-in.''
      else case find_buyin db buyinId of
        None \<Rightarrow> Inl ''Buy-in not found.''
      | Some buyin \<Rightarrow>
          if b_status buyin \<noteq> Pending then Inl ''Buy-in already resolved.''
          else if b_user_id buyin = js_String (u_id approver)
          then Inl ''You cannot vote on your own buy-in.''
          else if find_player db (b_game_id buyin) (js_String (u_id approver)) = None
          then Inl ''Only players can approve or reject buy-ins.''
          else Inr buyin)"

definition approval_write :: "DB \<Rightarrow> World \<Rightarrow> int \<Rightarrow> int \<Rightarrow> buyin_rec \<Rightarrow> TgUser \<Rightarrow> decision \<Rightarrow>
    ActionResult \<times> DB \<times> tg_call list" where
  "approval_write db w chatId buyinId buyin approver d =
     (let db1 = insert_approval db buyinId (js_String (u_id approver)) d (w_now w);
          (db2, msg, statusChanged) = resolve_buyin db1 buyinId;
          (b, db3, calls) =
            (case getGameById db2 (b_game_id buyin) of
               Some game \<Rightarrow> refreshGameMessage db2 w (g_chat_id game) (Some game) True
             | None \<Rightarrow> refreshGameMessage db2 w chatId None True)
      in (success msg, db3, calls))"

section \<open>Events and runs\<close>

text \<open>
  The intents the two handlers dispatch (\<open>handleMessage\<close>, \<open>handleCallback\<close>); the
  status command and the refresh button publish without permission to create a message.
  A run is a sequence of intents, each with what the outside world does during it, in
  which every invocation ends before the next begins: \<open>run\<close> does not cover
  invocations that overlap.
\<close>

datatype intent =
    StartGame int string
  | JoinGame int TgUser
  | BuyIn int TgUser "string option"
  | ProcessApproval int int TgUser decision
  | Refresh int
  | EndGame int

fun step :: "DB \<Rightarrow> World \<times> intent \<Rightarrow> DB" where
  "step db (w, StartGame chatId argText) = fst (snd (startGame db w chatId argText))"
| "step db (w, JoinGame chatId user) = fst (snd (joinGame db w chatId user))"
| "step db (w, BuyIn chatId user argText) = fst (snd (buyIn db w chatId user argText))"
| "step db (w, ProcessApproval chatId buyinId approver d) =
     fst (snd (processApproval db w chatId buyinId approver d))"
| "step db (w, Refresh chatId) = fst (snd (refreshGameMessage db w chatId None False))"
| "step db (w, EndGame chatId) = fst (snd (endGame db w chatId))"

definition run :: "DB \<Rightarrow> (World \<times> intent) list \<Rightarrow> DB" where
  "run db evs = foldl step db evs"

definition empty_db :: DB where
  "empty_db = \<lparr>games = [], players = [], buyins = [], approvals = []\<rparr>"

section \<open>Properties of the store\<close>


definition one_active_per_chat :: "DB \<Rightarrow> bool" where
  "one_active_per_chat db =
     distinct (map g_chat_id (filter (\<lambda>g. g_status g = Active) (games db)))"

definition votes_unique :: "DB \<Rightarrow> bool" where
  "votes_unique db =
     distinct (map (\<lambda>a. (a_buyin_id a, a_approver_user_id a)) (approvals db))"

definition roster_unique :: "DB \<Rightarrow> bool" where
  "roster_unique db = distinct (map (\<lambda>p. (pl_game_id p, pl_user_id p)) (players db))"

definition buyin_ids_positive :: "DB \<Rightarrow> bool" where
  "buyin_ids_positive db = list_all (\<lambda>b. 0 < b_id b) (buyins db)"

text \<open>
  The order of the player rows that the query asks for: total descending, then the
  \<open>username\<close> column ascending.
\<close>

definition players_ordered :: "PlayerRow list \<Rightarrow> bool" where
  "players_ordered rows =
     sorted_wrt (\<lambda>r r'. pr_approved_cents r' < pr_approved_cents r \<or>
                   pr_approved_cents r' = pr_approved_cents r \<and> pr_username r \<le> pr_username r')
       rows"

text \<open>
  For comparison with the code, two readings taken from the specification's words: the
  order of player rows by total descending and then display label ascending, and the
  scaling of an amount to minor units with ties rounded to the even neighbour.
\<close>

definition spec_player_key :: "PlayerRow \<Rightarrow> int \<times> string" where
  "spec_player_key r =
     (- pr_approved_cents r, displayName (pr_username r) (pr_first_name r) (pr_user_id r))"

definition spec_minor_units :: "rat \<Rightarrow> int" where
  "spec_minor_units x = round_ties_even (x * 100)"

text \<open>
  Every operation changes the store by a sequence of the write statements above, each
  under the check the operation makes before it. \<open>wr\<close> is one such write; the
  invariants are shown for single writes and carried over to operations and runs.
  The set \<open>cs\<close> holds the chats in which a game may be started; \<open>started\<close>
  gives the chats an event can start a game in.
\<close>

inductive wr :: "int set \<Rightarrow> DB \<Rightarrow> DB \<Rightarrow> bool" for cs :: "int set" where
  wr_game: "activeGames db c = [] \<Longrightarrow> c \<in> cs \<Longrightarrow> wr cs db (snd (insert_game db c t cents))"
| wr_player: "find_player db g (js_String (u_id user)) = None \<Longrightarrow> wr cs db (insert_player db g user t)"
| wr_buyin: "wr cs db (insert_buyin db g uid cents t)"
| wr_vote: "wr cs db (insert_approval db i uid d t)"
| wr_status: "find_buyin db i = Some b \<Longrightarrow> b_status b = Pending \<Longrightarrow> wr cs db (update_buyin_status db i st)"
| wr_ended: "wr cs db (update_game_ended db g t)"
| wr_msg: "wr cs db (update_status_message db g m)"

fun started :: "World \<times> intent \<Rightarrow> int set" where
  "started (w, StartGame chatId argText) = {chatId}"
| "started (w, JoinGame chatId user) = {}"
| "started (w, BuyIn chatId user argText) = {}"
| "started (w, ProcessApproval chatId buyinId approver d) = {}"
| "started (w, Refresh chatId) = {}"
| "started (w, EndGame chatId) = {}"



section \<open>Example stores and events\<close>

text \<open>
  Concrete inputs on which the theorems below are instantiated: a world in which the
  Telegram API answers, three users, the run of a small game from the empty store, and
  stores written out in full. \<open>contested\<close> is the run that leads to
  \<open>contested_db\<close>, a game of three with one pending request and no vote;
  \<open>twin_db\<close> is the store that two overlapping starts in one chat leave.
\<close>

definition world0 :: World where
  "world0 = \<lparr>w_now = 100, w_edit_ok = True, w_send = TgResult (Some 7)\<rparr>"

definition world1 :: World where
  "world1 = \<lparr>w_now = 200, w_edit_ok = True, w_send = TgResult (Some 8)\<rparr>"

definition world_down :: World where
  "world_down = \<lparr>w_now = 200, w_edit_ok = False, w_send = TgError\<rparr>"

definition world_stale :: World where
  "world_stale = \<lparr>w_now = 200, w_edit_ok = False, w_send = TgResult (Some 8)\<rparr>"

definition userA :: TgUser where
  "userA = \<lparr>u_id = 1001, u_username = Some ''alice'', u_first_name = Some ''Alice''\<rparr>"

definition userB :: TgUser where
  "userB = \<lparr>u_id = 1002, u_username = None, u_first_name = Some ''Bob''\<rparr>"

definition userC :: TgUser where
  "userC = \<lparr>u_id = 1003, u_username = Some ''carol'', u_first_name = None\<rparr>"

definition game1 :: GameRow where
  "game1 = \<lparr>g_id = 1, g_chat_id = 1, g_status = Active, g_started_at = 100,
             g_ended_at = None, g_buy_in_cents = 5000, g_status_message_id = Some 7\<rparr>"


definition played_db :: DB where
  "played_db =
     \<lparr>games = [\<lparr>g_id = 1, g_chat_id = 1, g_status = Active, g_started_at = 100,
                 g_ended_at = None, g_buy_in_cents = 5000, g_status_message_id = Some 7\<rparr>],
      players = [\<lparr>pl_id = 1, pl_game_id = 1, pl_user_id = ''1001'', pl_username = Some ''alice'',
                   pl_first_name = Some ''Alice'', pl_joined_at = 100\<rparr>,
                 \<lparr>pl_id = 2, pl_game_id = 1, pl_user_id = ''1002'', pl_username = None,
                   pl_first_name = Some ''Bob'', pl_joined_at = 100\<rparr>],
      buyins = [\<lparr>b_id = 1, b_game_id = 1, b_user_id = ''1001'', b_amount_cents = 5000,
                  b_created_at = 100, b_status = Approved\<rparr>],
      approvals = [\<lparr>a_id = 1, a_buyin_id = 1, a_approver_user_id = ''1002'',
                     a_decision = Approve, a_created_at = 100\<rparr>]\<rparr>"

definition pending_db :: DB where
  "pending_db =
     \<lparr>games = [\<lparr>g_id = 1, g_chat_id = 1, g_status = Active, g_started_at = 100,
                 g_ended_at = None, g_buy_in_cents = 5000, g_status_message_id = Some 7\<rparr>],
      players = [\<lparr>pl_id = 1, pl_game_id = 1, pl_user_id = ''1001'', pl_username = Some ''alice'',
                   pl_first_name = Some ''Alice'', pl_joined_at = 100\<rparr>,
                 \<lparr>pl_id = 2, pl_game_id = 1, pl_user_id = ''1002'', pl_username = None,
                   pl_first_name = Some ''Bob'', pl_joined_at = 100\<rparr>],
      buyins = [\<lparr>b_id = 1, b_game_id = 1, b_user_id = ''1001'', b_amount_cents = 5000,
                  b_created_at = 100, b_status = Pending\<rparr>],
      approvals = []\<rparr>"

definition dup_db :: DB where
  "dup_db = pending_db\<lparr>approvals :=
     [\<lparr>a_id = 1, a_buyin_id = 1, a_approver_user_id = ''1002'',
       a_decision = Approve, a_created_at = 100\<rparr>]\<rparr>"




definition twin_db :: DB where
  "twin_db =
     \<lparr>games = [\<lparr>g_id = 1, g_chat_id = 1, g_status = Active, g_started_at = 100,
                 g_ended_at = None, g_buy_in_cents = 5000, g_status_message_id = Some 7\<rparr>,
               \<lparr>g_id = 2, g_chat_id = 1, g_status = Active, g_started_at = 200,
                 g_ended_at = None, g_buy_in_cents = 2000, g_status_message_id = Some 8\<rparr>],
      players = [], buyins = [], approvals = []\<rparr>"

definition label_db :: DB where
  "label_db =
     \<lparr>games = [\<lparr>g_id = 1, g_chat_id = 1, g_status = Active, g_started_at = 100,
                 g_ended_at = None, g_buy_in_cents = 5000, g_status_message_id = Some 7\<rparr>],
      players = [\<lparr>pl_id = 1, pl_game_id = 1, pl_user_id = ''1001'', pl_username = Some ''bob'',
                   pl_first_name = Some ''Bob'', pl_joined_at = 100\<rparr>,
                 \<lparr>pl_id = 2, pl_game_id = 1, pl_user_id = ''1002'', pl_username = None,
                   pl_first_name = Some ''Zed'', pl_joined_at = 100\<rparr>],
      buyins = [],
      approvals = []\<rparr>"

definition label_events :: "(World \<times> intent) list" where
  "label_events =
     [(world0, StartGame 1 ''50''),
      (world0, JoinGame 1 \<lparr>u_id = 1001, u_username = Some ''bob'', u_first_name = Some ''Bob''\<rparr>),
      (world0, JoinGame 1 \<lparr>u_id = 1002, u_username = None, u_first_name = Some ''Zed''\<rparr>)]"

section \<open>Operations as sequences of writes\<close>

lemma wr_once: "wr cs a b \<Longrightarrow> (wr cs)\<^sup>*\<^sup>* a b"
  by (rule r_into_rtranclp)

lemma refresh_cases:
  "fst (snd (refreshGameMessage db w c pg ac)) = db \<or>
   (\<exists>i m. fst (snd (refreshGameMessage db w c pg ac)) = update_status_message db i m)"
  by (auto simp: refreshGameMessage_def sendStatus_def Let_def
      split: option.splits tg_reply.splits)

lemma refresh_wr: "(wr cs)\<^sup>*\<^sup>* db (fst (snd (refreshGameMessage db w c pg ac)))"
  using refresh_cases [of db w c pg ac] by (auto intro!: wr_once [OF wr_msg])

lemma wr_refresh: "wr cs db db1 \<Longrightarrow> (wr cs)\<^sup>*\<^sup>* db (fst (snd (refreshGameMessage db1 w c pg ac)))"
  by (meson converse_rtranclp_into_rtranclp refresh_wr)

lemma wr2_refresh:
  "(wr cs)\<^sup>*\<^sup>* db db1 \<Longrightarrow> (wr cs)\<^sup>*\<^sup>* db (fst (snd (refreshGameMessage db1 w c pg ac)))"
  by (meson rtranclp_trans refresh_wr)

lemma startGame_wr: "c \<in> cs \<Longrightarrow> (wr cs)\<^sup>*\<^sup>* db (fst (snd (startGame db w c a)))"
  by (auto simp: startGame_def Let_def split_def split: option.splits
      intro!: wr_refresh [OF wr_game] wr_once [OF wr_game])

lemma joinGame_wr: "(wr cs)\<^sup>*\<^sup>* db (fst (snd (joinGame db w c u)))"
  by (auto simp: joinGame_def Let_def split_def split: option.splits
      intro!: wr_refresh [OF wr_player])

lemma buyIn_wr: "(wr cs)\<^sup>*\<^sup>* db (fst (snd (buyIn db w c u a)))"
  by (auto simp: buyIn_def Let_def split_def split: option.splits sum.splits
      intro!: wr_refresh [OF wr_buyin])

lemma find_buyin_insert_approval [simp]:
  "find_buyin (insert_approval db i uid d t) j = find_buyin db j"
  by (simp add: find_buyin_def insert_approval_def has_vote_def)

lemma resolve_wr:
  "find_buyin db i = Some b \<Longrightarrow> b_status b = Pending \<Longrightarrow>
   (wr cs)\<^sup>*\<^sup>* db (fst (resolve_buyin (insert_approval db i uid d t) i))"
proof -
  assume a: "find_buyin db i = Some b" "b_status b = Pending"
  let ?db1 = "insert_approval db i uid d t"
  have 1: "wr cs db ?db1" by (rule wr_vote)
  have 2: "wr cs ?db1 (update_buyin_status ?db1 i st)" for st
    using a by (intro wr_status [where b = b]) simp_all
  have "fst (resolve_buyin ?db1 i) = ?db1 \<or>
        (\<exists>st. fst (resolve_buyin ?db1 i) = update_buyin_status ?db1 i st)"
    by (auto simp: resolve_buyin_def Let_def)
  then show ?thesis using 1 2
    by (metis r_into_rtranclp rtranclp.rtrancl_into_rtrancl)
qed

lemma processApproval_wr: "(wr cs)\<^sup>*\<^sup>* db (fst (snd (processApproval db w c i u d)))"
  by (auto simp: processApproval_def Let_def split_def split: option.splits
      intro!: wr2_refresh resolve_wr)

lemma endGame_wr: "(wr cs)\<^sup>*\<^sup>* db (fst (snd (endGame db w c)))"
  by (auto simp: endGame_def Let_def split_def split: option.splits
      intro!: wr_refresh [OF wr_ended] wr_once [OF wr_ended])

lemma step_wr: "started ev \<subseteq> cs \<Longrightarrow> (wr cs)\<^sup>*\<^sup>* db (step db ev)"
proof (cases ev)
  case (Pair w i)
  assume "started ev \<subseteq> cs"
  then show ?thesis using Pair
    by (cases i)
      (simp_all add: startGame_wr joinGame_wr buyIn_wr processApproval_wr endGame_wr refresh_wr)
qed

lemma run_wr: "(\<Union>ev\<in>set evs. started ev) \<subseteq> cs \<Longrightarrow> (wr cs)\<^sup>*\<^sup>* db (run db evs)"
  unfolding run_def
proof (induction evs arbitrary: db)
  case Nil
  then show ?case by simp
next
  case (Cons ev evs)
  have "(wr cs)\<^sup>*\<^sup>* db (step db ev)" using Cons.prems by (intro step_wr) simp
  moreover have "(wr cs)\<^sup>*\<^sup>* (step db ev) (foldl step (step db ev) evs)"
    using Cons.prems by (intro Cons.IH) simp
  ultimately show ?case by simp
qed

lemma run_wr_any: "(wr UNIV)\<^sup>*\<^sup>* db (run db evs)"
  by (rule run_wr) simp

section \<open>What a single write preserves\<close>

lemma find_snoc:
  "find P (xs @ [x]) = (case find P xs of None \<Rightarrow> (if P x then Some x else None) | Some y \<Rightarrow> Some y)"
  by (induction xs) auto




lemma active_after_ended:
  "filter (\<lambda>g. g_status g = Active)
     (map (\<lambda>g. if g_id g = i then g\<lparr>g_status := Ended, g_ended_at := Some t\<rparr> else g) gs) =
   filter (\<lambda>g. g_status g = Active \<and> g_id g \<noteq> i) gs"
  by (induction gs) auto

lemma active_after_msg:
  "map g_chat_id (filter (\<lambda>g. g_status g = Active)
     (map (\<lambda>g. if g_id g = i then g\<lparr>g_status_message_id := Some m\<rparr> else g) gs)) =
   map g_chat_id (filter (\<lambda>g. g_status g = Active) gs)"
  by (induction gs) auto

lemma distinct_map_filter2:
  "distinct (map f (filter P xs)) \<Longrightarrow> distinct (map f (filter (\<lambda>x. P x \<and> Q x) xs))"
  unfolding filter_filter [symmetric] by (rule distinct_map_filter)

lemma distinct_filter_le1:
  "distinct (map f xs) \<Longrightarrow> length (filter (\<lambda>x. f x = c) xs) \<le> 1"
proof (induction xs)
  case Nil
  then show ?case by simp
next
  case (Cons x xs)
  show ?case
  proof (cases "f x = c")
    case True
    have "f x \<notin> f ` set xs" using Cons.prems by simp
    then have "\<forall>y\<in>set xs. f y \<noteq> c" using True by blast
    then have "filter (\<lambda>x. f x = c) xs = []"
      by (simp add: filter_empty_conv)
    then show ?thesis using True by simp
  next
    case False
    then show ?thesis using Cons by simp
  qed
qed

lemma wr_one_active: "wr cs db db' \<Longrightarrow> one_active_per_chat db \<Longrightarrow> one_active_per_chat db'"
proof (induction rule: wr.induct)
  case (wr_game db c t cents)
  have "c \<notin> g_chat_id ` {g \<in> set (games db). g_status g = Active}"
    using wr_game(1) by (auto simp: activeGames_def filter_empty_conv)
  then show ?case using wr_game(3)
    by (auto simp: one_active_per_chat_def insert_game_def Let_def)
next
  case (wr_ended db g t)
  then show ?case
    by (simp add: one_active_per_chat_def update_game_ended_def active_after_ended
        distinct_map_filter2)
next
  case (wr_msg db g m)
  then show ?case
    by (simp add: one_active_per_chat_def update_status_message_def active_after_msg)
qed (auto simp: one_active_per_chat_def insert_player_def insert_buyin_def
      insert_approval_def has_vote_def update_buyin_status_def)

lemma wr_votes_unique: "wr cs db db' \<Longrightarrow> votes_unique db \<Longrightarrow> votes_unique db'"
proof (induction rule: wr.induct)
  case (wr_vote db i uid d t)
  then show ?case
    by (auto simp: votes_unique_def insert_approval_def has_vote_def find_None_iff)
qed (auto simp: votes_unique_def insert_game_def insert_player_def insert_buyin_def
      update_buyin_status_def update_game_ended_def update_status_message_def Let_def)

lemma wr_roster_unique: "wr cs db db' \<Longrightarrow> roster_unique db \<Longrightarrow> roster_unique db'"
proof (induction rule: wr.induct)
  case (wr_player db g user t)
  then show ?case
    by (auto simp: roster_unique_def insert_player_def find_player_def find_None_iff)
qed (auto simp: roster_unique_def insert_game_def insert_approval_def has_vote_def insert_buyin_def
      update_buyin_status_def update_game_ended_def update_status_message_def Let_def)

lemma fold_max_ge: "(a::int) \<le> fold max ids a"
  by (induction ids arbitrary: a) (auto intro: order_trans [OF max.cobounded2])


lemma fold_max_upper: "x \<in> set ids \<Longrightarrow> (x::int) \<le> fold max ids a"
proof (induction ids arbitrary: a)
  case Nil
  then show ?case by simp
next
  case (Cons y ys)
  show ?case
  proof (cases "x = y")
    case True
    have "max y a \<le> fold max ys (max y a)" by (rule fold_max_ge)
    then show ?thesis using True by simp
  next
    case False
    then show ?thesis using Cons by simp
  qed
qed

lemma next_rowid_fresh: "x \<in> set ids \<Longrightarrow> x < next_rowid ids"
  using fold_max_upper [of x ids 0] by (simp add: next_rowid_def)





section \<open>Runs\<close>

lemma refresh_tables [simp]:
  "players (fst (snd (refreshGameMessage db w c pg ac))) = players db"
  "buyins (fst (snd (refreshGameMessage db w c pg ac))) = buyins db"
  "approvals (fst (snd (refreshGameMessage db w c pg ac))) = approvals db"
  using refresh_cases [of db w c pg ac]
  by (auto simp: update_status_message_def)

lemma resolve_tables [simp]:
  "approvals (fst (resolve_buyin db i)) = approvals db"
  "players (fst (resolve_buyin db i)) = players db"
  "games (fst (resolve_buyin db i)) = games db"
  by (auto simp: resolve_buyin_def update_buyin_status_def Let_def)


lemma empty_db_invariants:
  "one_active_per_chat empty_db" "votes_unique empty_db" "roster_unique empty_db"
  "buyin_ids_positive empty_db"
  by (simp_all add: one_active_per_chat_def votes_unique_def roster_unique_def
      buyin_ids_positive_def empty_db_def)

lemma run_one_active:
  assumes "one_active_per_chat db"
  shows "one_active_per_chat (run db evs)"
proof -
  have "(wr UNIV)\<^sup>*\<^sup>* db db' \<Longrightarrow> one_active_per_chat db'" for db'
    by (induction rule: rtranclp_induct) (auto intro: assms wr_one_active)
  then show ?thesis using run_wr_any by blast
qed

lemma run_votes_unique:
  assumes "votes_unique db"
  shows "votes_unique (run db evs)"
proof -
  have "(wr UNIV)\<^sup>*\<^sup>* db db' \<Longrightarrow> votes_unique db'" for db'
    by (induction rule: rtranclp_induct) (auto intro: assms wr_votes_unique)
  then show ?thesis using run_wr_any by blast
qed

lemma run_roster_unique:
  assumes "roster_unique db"
  shows "roster_unique (run db evs)"
proof -
  have "(wr UNIV)\<^sup>*\<^sup>* db db' \<Longrightarrow> roster_unique db'" for db'
    by (induction rule: rtranclp_induct) (auto intro: assms wr_roster_unique)
  then show ?thesis using run_wr_any by blast
qed



section \<open>The two parts of an operation\<close>

text \<open>
  An operation is its check followed at once by its write on the same store.
\<close>

lemma startGame_parts:
  "startGame db w c a =
     (case startGame_check db c a of
        Inl m \<Rightarrow> (failure m, db, [])
      | Inr cents \<Rightarrow> startGame_write db w c cents)"
  by (simp add: startGame_def startGame_check_def startGame_write_def Let_def
      split: option.splits)

lemma approval_parts:
  "processApproval db w c i u d =
     (case approval_check db i u of
        Inl m \<Rightarrow> (failure m, db, [])
      | Inr b \<Rightarrow> approval_write db w c i b u d)"
  by (simp add: processApproval_def approval_check_def approval_write_def Let_def
      split: option.splits)

section \<open>When the operations succeed\<close>

lemma startGame_ok_iff:
  "ok (fst (startGame db w c a)) \<longleftrightarrow>
   activeGames db c = [] \<and> (\<exists>m. match_amount a = Some m \<and> 0 < parseFloat m)"
  by (auto simp: startGame_def Let_def split_def failure_def success_def split: option.splits)

lemma startGame_ok_db:
  "ok (fst (startGame db w c a)) \<Longrightarrow>
   \<exists>cents pg. fst (snd (startGame db w c a)) = snd (insert_game db c (w_now w) cents) \<or>
     fst (snd (startGame db w c a)) =
       fst (snd (refreshGameMessage (snd (insert_game db c (w_now w) cents)) w c pg True))"
  by (auto simp: startGame_def Let_def split_def failure_def success_def split: option.splits)

lemma startGame_fail_db:
  "\<not> ok (fst (startGame db w c a)) \<Longrightarrow> snd (startGame db w c a) = (db, [])"
  by (auto simp: startGame_def Let_def split_def failure_def success_def split: option.splits)

lemma processApproval_ok_iff:
  "ok (fst (processApproval db w c i u d)) \<longleftrightarrow>
   i \<noteq> 0 \<and> (\<exists>b. find_buyin db i = Some b \<and> b_status b = Pending \<and>
     b_user_id b \<noteq> js_String (u_id u) \<and>
     find_player db (b_game_id b) (js_String (u_id u)) \<noteq> None)"
  by (auto simp: processApproval_def Let_def split_def failure_def success_def
      split: option.splits)

lemma processApproval_fail_db:
  "\<not> ok (fst (processApproval db w c i u d)) \<Longrightarrow> snd (processApproval db w c i u d) = (db, [])"
  by (auto simp: processApproval_def Let_def split_def failure_def success_def
      split: option.splits)



section \<open>The session row after a publish\<close>

lemma activeGames_msg:
  "map g_id (activeGames (update_status_message db i m) c) = map g_id (activeGames db c)"
proof -
  have "map g_id (filter (\<lambda>g. g_chat_id g = c \<and> g_status g = Active)
          (map (\<lambda>g. if g_id g = i then g\<lparr>g_status_message_id := Some m\<rparr> else g) gs)) =
        map g_id (filter (\<lambda>g. g_chat_id g = c \<and> g_status g = Active) gs)" for gs
    by (induction gs) auto
  then show ?thesis by (simp add: activeGames_def update_status_message_def)
qed

lemma activeGames_refresh:
  "map g_id (activeGames (fst (snd (refreshGameMessage db w c' pg ac))) c) =
   map g_id (activeGames db c)"
  using refresh_cases [of db w c' pg ac] by (auto simp: activeGames_msg)

lemma find_map_msg:
  "find (\<lambda>g. g_id g = i) (map (\<lambda>g. if g_id g = j then g\<lparr>g_status_message_id := Some m\<rparr> else g) gs) =
   map_option (\<lambda>g. if g_id g = j then g\<lparr>g_status_message_id := Some m\<rparr> else g)
     (find (\<lambda>g. g_id g = i) gs)"
  by (induction gs) auto

lemma getGameById_msg:
  "map_option g_buy_in_cents (getGameById (update_status_message db j m) i) =
   map_option g_buy_in_cents (getGameById db i)"
  "map_option g_status (getGameById (update_status_message db j m) i) =
   map_option g_status (getGameById db i)"
  by (cases "find (\<lambda>g. g_id g = i) (games db)";
      simp add: getGameById_def update_status_message_def find_map_msg)+

lemma getGameById_refresh:
  "map_option g_buy_in_cents (getGameById (fst (snd (refreshGameMessage db w c pg ac))) i) =
   map_option g_buy_in_cents (getGameById db i)"
  "map_option g_status (getGameById (fst (snd (refreshGameMessage db w c pg ac))) i) =
   map_option g_status (getGameById db i)"
  using refresh_cases [of db w c pg ac] by (auto simp: getGameById_msg)

section \<open>Evaluating the examples\<close>

lemma refresh_db:
  "fst (snd (refreshGameMessage db w c (Some game) True)) =
     (if g_status_message_id game \<noteq> None \<and> w_edit_ok w then db
      else case w_send w of
        TgError \<Rightarrow> db
      | TgResult None \<Rightarrow> db
      | TgResult (Some mid) \<Rightarrow>
          if mid \<noteq> 0 then update_status_message db (g_id game) mid else db)"
  by (auto simp: refreshGameMessage_def sendStatus_def Let_def
      split: option.splits tg_reply.splits)

lemma cents_50: "toCents (parseFloat (''50'', [])) = 5000"
  by code_simp

lemma pos_50: "0 < parseFloat (''50'', [])"
  by code_simp

lemma cents_20: "toCents (parseFloat (''20'', [])) = 2000"
  by code_simp

lemma pos_20: "0 < parseFloat (''20'', [])"
  by code_simp

lemmas eval_defs =
  startGame_def joinGame_def buyIn_def processApproval_def endGame_def
  split_def Let_def refresh_db activeGames_def currentGame_def getGameById_def
  find_player_def find_buyin_def count_decision_def insert_game_def insert_player_def
  insert_buyin_def insert_approval_def has_vote_def update_buyin_status_def update_game_ended_def
  update_status_message_def next_rowid_def or_null_def resolve_buyin_def buyin_cents_def
  APPROVALS_REQUIRED_def js_String_def digits.simps digit_def is_digit_def
  failure_def success_def empty_db_def

lemmas part_defs =
  startGame_check_def startGame_write_def approval_check_def approval_write_def



lemma twin_db_reached:
  "fst (snd (startGame_write (fst (snd (startGame_write empty_db world0 1 5000))) world1 1 2000)) =
     twin_db"
  by (simp add: part_defs twin_db_def world0_def world1_def eval_defs)

lemma user_ids:
  "js_String (u_id userA) = ''1001''" "js_String (u_id userB) = ''1002''"
  "js_String (u_id userC) = ''1003''"
  by (simp_all add: userA_def userB_def userC_def js_String_def digits.simps digit_def)

lemma played_request:
  "find_buyin played_db 1 =
     Some \<lparr>b_id = 1, b_game_id = 1, b_user_id = ''1001'', b_amount_cents = 5000,
            b_created_at = 100, b_status = Approved\<rparr>"
  by (simp add: played_db_def find_buyin_def)

lemma pending_request:
  "find_buyin pending_db 1 =
     Some \<lparr>b_id = 1, b_game_id = 1, b_user_id = ''1001'', b_amount_cents = 5000,
            b_created_at = 100, b_status = Pending\<rparr>"
  "find_buyin dup_db 1 =
     Some \<lparr>b_id = 1, b_game_id = 1, b_user_id = ''1001'', b_amount_cents = 5000,
            b_created_at = 100, b_status = Pending\<rparr>"
  "find_buyin pending_db 99 = None"
  by (simp_all add: pending_db_def dup_db_def find_buyin_def)

lemma current_played: "currentGame played_db 1 = Some game1"
  by (simp add: currentGame_def activeGames_def played_db_def game1_def)

section \<open>The status transition (C1)\<close>






section \<open>Request status is terminal (C2)\<close>




section \<open>One active session per chat (C3)\<close>

lemma activeGames_insert_game:
  "activeGames db c = [] \<Longrightarrow>
   map g_id (activeGames (snd (insert_game db c t cents)) c) = [next_rowid (map g_id (games db))]"
  by (simp add: activeGames_def insert_game_def Let_def)

lemma one_active_length:
  "one_active_per_chat db \<Longrightarrow> length (activeGames db c) \<le> 1"
proof -
  assume "one_active_per_chat db"
  then have "length (filter (\<lambda>g. g_chat_id g = c) (filter (\<lambda>g. g_status g = Active) (games db))) \<le> 1"
    unfolding one_active_per_chat_def by (rule distinct_filter_le1)
  then show ?thesis by (simp add: activeGames_def conj_commute)
qed

text \<open>
  Operations that run one after another keep at most one active session per chat: the
  property holds in every store that a run reaches from the empty one and is kept by
  every run from a store that has it, so that the active sessions of a chat are at most
  one row. \<open>startGame\<close> fails with the conflict message and leaves the store as it
  is when the chat has an active session; when it succeeds the chat had none and has
  exactly the new session afterwards; when it fails for any reason the store is
  unchanged.
\<close>

theorem one_active_sequential:
  "(one_active_per_chat db \<longrightarrow>
      one_active_per_chat (run db evs) \<and> length (activeGames (run db evs) c) \<le> 1)
   \<and> one_active_per_chat (run empty_db evs)
   \<and> (activeGames db c \<noteq> [] \<longrightarrow>
        startGame db w c a =
          (failure ''There is already an active game in this chat.'', db, []))
   \<and> (ok (fst (startGame db w c a)) \<longrightarrow>
        activeGames db c = [] \<and>
        map g_id (activeGames (fst (snd (startGame db w c a))) c) =
          [next_rowid (map g_id (games db))])
   \<and> (\<not> ok (fst (startGame db w c a)) \<longrightarrow> fst (snd (startGame db w c a)) = db)"
proof (intro conjI impI)
  assume "one_active_per_chat db"
  then show "one_active_per_chat (run db evs)" by (rule run_one_active)
next
  assume "one_active_per_chat db"
  then have "one_active_per_chat (run db evs)" by (rule run_one_active)
  then show "length (activeGames (run db evs) c) \<le> 1" by (rule one_active_length)
next
  show "one_active_per_chat (run empty_db evs)"
    by (rule run_one_active) (rule empty_db_invariants)
next
  assume "activeGames db c \<noteq> []"
  then show "startGame db w c a =
      (failure ''There is already an active game in this chat.'', db, [])"
    by (simp add: startGame_def)
next
  assume a: "ok (fst (startGame db w c a))"
  then show "activeGames db c = []" by (simp add: startGame_ok_iff)
next
  assume a: "ok (fst (startGame db w c a))"
  then have e: "activeGames db c = []" by (simp add: startGame_ok_iff)
  from startGame_ok_db [OF a] show
    "map g_id (activeGames (fst (snd (startGame db w c a))) c) =
       [next_rowid (map g_id (games db))]"
    using e by (auto simp: activeGames_refresh activeGames_insert_game)
next
  assume "\<not> ok (fst (startGame db w c a))"
  then show "fst (snd (startGame db w c a)) = db" by (simp add: startGame_fail_db)
qed

text \<open>
  On the example store the property is kept through ending the game and starting
  another; a second start in the chat of a running game is refused; a start in the
  empty store creates session 1.
\<close>

theorem one_active_sequential_example:
  "one_active_per_chat (run played_db [(world0, EndGame 1), (world0, StartGame 1 ''20'')]) \<and>
   length (activeGames (run played_db [(world0, EndGame 1), (world0, StartGame 1 ''20'')]) 1) \<le> 1 \<and>
   startGame played_db world0 1 ''20'' =
     (failure ''There is already an active game in this chat.'', played_db, []) \<and>
   map g_id (activeGames (fst (snd (startGame empty_db world0 1 ''50''))) 1) = [1]"
proof -
  have h1: "one_active_per_chat played_db"
    by (simp add: played_db_def one_active_per_chat_def)
  have h2: "activeGames played_db 1 \<noteq> []"
    by (simp add: played_db_def activeGames_def)
  have h3: "ok (fst (startGame empty_db world0 1 ''50''))"
    by (simp add: startGame_ok_iff activeGames_def empty_db_def is_digit_def pos_50)
  have h4: "next_rowid (map g_id (games empty_db)) = 1"
    by (simp add: next_rowid_def empty_db_def)
  show ?thesis
    using one_active_sequential [of played_db "[(world0, EndGame 1), (world0, StartGame 1 ''20'')]"
        1 world0 "''20''"]
      one_active_sequential [of empty_db "[]" 1 world0 "''50''"]
      h1 h2 h3 h4
    by simp
qed

text \<open>
  C3. Two invocations of \<open>startGame\<close> in chat 1 overlap. Each makes its check on
  the empty store, where the chat has no active session, and each passes with its
  amount. Each then inserts its session and reports success: nothing at the insert looks
  at the sessions of the chat again, and the table of games has no uniqueness
  constraint. The store they leave, \<open>twin_db\<close>, has the two active sessions 1
  and 2 in chat 1, and \<open>one_active_per_chat\<close> fails on it. When the same two
  starts run one after another, the second is refused with the conflict message.
\<close>

theorem overlapping_starts_two_active:
  "startGame_check empty_db 1 ''50'' = Inr 5000 \<and>
   startGame_check empty_db 1 ''20'' = Inr 2000 \<and>
   fst (startGame_write empty_db world0 1 5000) = success ''Game started.'' \<and>
   fst (startGame_write (fst (snd (startGame_write empty_db world0 1 5000))) world1 1 2000) =
     success ''Game started.'' \<and>
   fst (snd (startGame_write (fst (snd (startGame_write empty_db world0 1 5000))) world1 1 2000)) =
     twin_db \<and>
   map g_id (activeGames twin_db 1) = [1, 2] \<and>
   \<not> one_active_per_chat twin_db \<and>
   fst (startGame (fst (snd (startGame empty_db world0 1 ''50''))) world1 1 ''20'') =
     failure ''There is already an active game in this chat.''"
proof -
  have c: "startGame_check empty_db 1 ''50'' = Inr 5000 \<and>
      startGame_check empty_db 1 ''20'' = Inr 2000"
    by (simp add: startGame_check_def eval_defs cents_50 pos_50 cents_20 pos_20)
  have r: "fst (startGame_write empty_db world0 1 5000) = success ''Game started.'' \<and>
      fst (startGame_write (fst (snd (startGame_write empty_db world0 1 5000))) world1 1 2000) =
        success ''Game started.''"
    by (simp add: part_defs world0_def world1_def eval_defs)
  have t: "map g_id (activeGames twin_db 1) = [1, 2] \<and> \<not> one_active_per_chat twin_db"
    by (simp add: twin_db_def activeGames_def one_active_per_chat_def)
  have s: "fst (startGame (fst (snd (startGame empty_db world0 1 ''50''))) world1 1 ''20'') =
     failure ''There is already an active game in this chat.''"
    by (simp add: world0_def world1_def eval_defs cents_50 pos_50)
  from c r t s twin_db_reached show ?thesis by (intro conjI) simp_all
qed

section \<open>One vote per request and voter (C4)\<close>

lemma insert_approval_present:
  "has_vote db i v \<Longrightarrow> insert_approval db i v d t = db"
  by (simp add: insert_approval_def has_vote_def)

lemma has_vote_insert: "has_vote (insert_approval db i v d t) i v"
  by (auto simp: insert_approval_def has_vote_def find_snoc split: option.splits)

lemma processApproval_approvals:
  "has_vote db i (js_String (u_id u)) \<Longrightarrow>
   approvals (fst (snd (processApproval db w c i u d))) = approvals db"
  by (auto simp: processApproval_def Let_def split_def insert_approval_present
      split: option.splits)

lemma votes_unique_le1:
  "votes_unique db \<Longrightarrow>
   length (filter (\<lambda>a. a_buyin_id a = i \<and> a_approver_user_id a = v) (approvals db)) \<le> 1"
proof -
  assume "votes_unique db"
  then have "length (filter (\<lambda>a. (a_buyin_id a, a_approver_user_id a) = (i, v)) (approvals db)) \<le> 1"
    unfolding votes_unique_def by (rule distinct_filter_le1)
  then show ?thesis by simp
qed

text \<open>
  C4. No two vote rows share request and voter: the property holds in every store reached
  from the empty one and is kept by every run. Inserting a vote for a pair that already
  has one leaves the table as it is, whatever the new decision. When the voter already
  has a vote on the request, \<open>processApproval\<close> leaves the votes table, and so every
  tally, unchanged; and when the other checks pass it still reports success rather than
  an error.
\<close>

theorem vote_once:
  "(votes_unique db \<longrightarrow>
      votes_unique (run db evs) \<and>
      length (filter (\<lambda>a. a_buyin_id a = i \<and> a_approver_user_id a = v)
                (approvals (run db evs))) \<le> 1)
   \<and> votes_unique (run empty_db evs)
   \<and> insert_approval (insert_approval db i v d t) i v d' t' = insert_approval db i v d t
   \<and> (has_vote db i (js_String (u_id u)) \<longrightarrow>
        approvals (fst (snd (processApproval db w c i u d))) = approvals db \<and>
        count_decision (fst (snd (processApproval db w c i u d))) j d' = count_decision db j d')
   \<and> (has_vote db i (js_String (u_id u)) \<and> i \<noteq> 0 \<and> find_buyin db i = Some b \<and>
       b_status b = Pending \<and> b_user_id b \<noteq> js_String (u_id u) \<and>
       find_player db (b_game_id b) (js_String (u_id u)) \<noteq> None \<longrightarrow>
        ok (fst (processApproval db w c i u d)))"
proof (intro conjI impI)
  assume "votes_unique db"
  then show "votes_unique (run db evs)" by (rule run_votes_unique)
next
  assume "votes_unique db"
  then have "votes_unique (run db evs)" by (rule run_votes_unique)
  then show "length (filter (\<lambda>a. a_buyin_id a = i \<and> a_approver_user_id a = v)
                (approvals (run db evs))) \<le> 1"
    by (rule votes_unique_le1)
next
  show "votes_unique (run empty_db evs)"
    by (rule run_votes_unique) (rule empty_db_invariants)
next
  show "insert_approval (insert_approval db i v d t) i v d' t' = insert_approval db i v d t"
    by (rule insert_approval_present) (rule has_vote_insert)
next
  assume "has_vote db i (js_String (u_id u))"
  then show "approvals (fst (snd (processApproval db w c i u d))) = approvals db"
    by (rule processApproval_approvals)
next
  assume "has_vote db i (js_String (u_id u))"
  then have "approvals (fst (snd (processApproval db w c i u d))) = approvals db"
    by (rule processApproval_approvals)
  then show "count_decision (fst (snd (processApproval db w c i u d))) j d' =
      count_decision db j d'"
    by (simp add: count_decision_def)
next
  assume "has_vote db i (js_String (u_id u)) \<and> i \<noteq> 0 \<and> find_buyin db i = Some b \<and>
       b_status b = Pending \<and> b_user_id b \<noteq> js_String (u_id u) \<and>
       find_player db (b_game_id b) (js_String (u_id u)) \<noteq> None"
  then show "ok (fst (processApproval db w c i u d))"
    by (simp add: processApproval_ok_iff)
qed

text \<open>
  C4, witness: in a store where the second user has approved the pending request 1, that
  user's rejection is ignored: the table and the reject tally are unchanged and the
  operation reports success.
\<close>

theorem vote_once_witness:
  "votes_unique (run dup_db [(world0, ProcessApproval 1 1 userB Reject)]) \<and>
   approvals (fst (snd (processApproval dup_db world0 1 1 userB Reject))) = approvals dup_db \<and>
   count_decision (fst (snd (processApproval dup_db world0 1 1 userB Reject))) 1 Reject = 0 \<and>
   ok (fst (processApproval dup_db world0 1 1 userB Reject))"
proof -
  have h1: "votes_unique dup_db"
    by (simp add: dup_db_def votes_unique_def)
  have h2: "has_vote dup_db 1 (js_String (u_id userB))"
    by (simp add: user_ids has_vote_def dup_db_def)
  have h3: "find_player dup_db 1 (js_String (u_id userB)) \<noteq> None"
    by (simp add: user_ids find_player_def dup_db_def pending_db_def)
  have h4: "count_decision dup_db 1 Reject = 0"
    by (simp add: count_decision_def dup_db_def)
  show ?thesis
    using vote_once [where db = dup_db and evs = "[(world0, ProcessApproval 1 1 userB Reject)]"
        and i = 1 and u = userB and w = world0 and c = 1 and d = Reject and j = 1
        and d' = Reject and b = "\<lparr>b_id = 1, b_game_id = 1, b_user_id = ''1001'', b_amount_cents = 5000,
            b_created_at = 100, b_status = Pending\<rparr>"]
      h1 h2 h3 h4 pending_request user_ids
    by simp
qed

section \<open>Checks before the vote is recorded (C5)\<close>

text \<open>
  C5, amended. \<open>processApproval\<close> makes five checks in this order, each returning its
  own failure with the store unchanged and nothing published: a request id of zero (a
  falsy id) is invalid; an unknown id is not found; a request that is no longer pending
  is already resolved; the requester may not vote on the own request; a voter who is not
  on the roster of the request's game may not vote. Every failing call leaves the store,
  and so the votes table, as it was, and a vote by the requester of an existing request
  always fails.
\<close>

theorem vote_rejected_without_record:
  "(i = 0 \<longrightarrow> processApproval db w c i u d = (failure ''Invalid buy-in.'', db, []))
   \<and> (i \<noteq> 0 \<and> find_buyin db i = None \<longrightarrow>
        processApproval db w c i u d = (failure ''Buy-in not found.'', db, []))
   \<and> (i \<noteq> 0 \<and> find_buyin db i = Some b \<and> b_status b \<noteq> Pending \<longrightarrow>
        processApproval db w c i u d = (failure ''Buy-in already resolved.'', db, []))
   \<and> (i \<noteq> 0 \<and> find_buyin db i = Some b \<and> b_status b = Pending \<and>
       b_user_id b = js_String (u_id u) \<longrightarrow>
        processApproval db w c i u d =
          (failure ''You cannot vote on your own buy-in.'', db, []))
   \<and> (i \<noteq> 0 \<and> find_buyin db i = Some b \<and> b_status b = Pending \<and>
       b_user_id b \<noteq> js_String (u_id u) \<and>
       find_player db (b_game_id b) (js_String (u_id u)) = None \<longrightarrow>
        processApproval db w c i u d =
          (failure ''Only players can approve or reject buy-ins.'', db, []))
   \<and> (\<not> ok (fst (processApproval db w c i u d)) \<longrightarrow>
        snd (processApproval db w c i u d) = (db, []))
   \<and> (find_buyin db i = Some b \<and> b_user_id b = js_String (u_id u) \<longrightarrow>
        \<not> ok (fst (processApproval db w c i u d)) \<and>
        snd (processApproval db w c i u d) = (db, []))"
proof -
  have selfvote: "\<not> ok (fst (processApproval db w c i u d))"
    if "find_buyin db i = Some b" "b_user_id b = js_String (u_id u)"
    using that by (simp add: processApproval_ok_iff)
  show ?thesis
    using selfvote processApproval_fail_db [of db w c i u d]
    by (simp add: processApproval_def)
qed

text \<open>
  C5, counterexample. The claim has an unknown request id answered by the not-found
  failure. The id 0 is unknown in the empty store, and the call fails with the
  invalid-id message instead.
\<close>

theorem invalid_id_not_reported_missing:
  "find_buyin empty_db 0 = None \<and>
   processApproval empty_db world0 1 0 userB Approve = (failure ''Invalid buy-in.'', empty_db, []) \<and>
   failure ''Invalid buy-in.'' \<noteq> failure ''Buy-in not found.''"
  by (simp add: processApproval_def find_buyin_def empty_db_def failure_def)

text \<open>
  C5, witness: the five failures on the example stores, one call each.
\<close>

theorem vote_rejected_without_record_witness:
  "processApproval pending_db world0 1 0 userB Approve =
     (failure ''Invalid buy-in.'', pending_db, []) \<and>
   processApproval pending_db world0 1 99 userB Approve =
     (failure ''Buy-in not found.'', pending_db, []) \<and>
   processApproval played_db world0 1 1 userB Reject =
     (failure ''Buy-in already resolved.'', played_db, []) \<and>
   processApproval pending_db world0 1 1 userA Approve =
     (failure ''You cannot vote on your own buy-in.'', pending_db, []) \<and>
   processApproval pending_db world0 1 1 userC Approve =
     (failure ''Only players can approve or reject buy-ins.'', pending_db, [])"
proof -
  have h: "find_player pending_db 1 (js_String (u_id userC)) = None"
    by (simp add: user_ids find_player_def pending_db_def)
  show ?thesis
    using vote_rejected_without_record [of 0 pending_db world0 1 userB Approve]
      vote_rejected_without_record [of 99 pending_db world0 1 userB Approve]
      vote_rejected_without_record [of 1 played_db world0 1 userB Reject
        "\<lparr>b_id = 1, b_game_id = 1, b_user_id = ''1001'', b_amount_cents = 5000,
            b_created_at = 100, b_status = Approved\<rparr>"]
      vote_rejected_without_record [of 1 pending_db world0 1 userA Approve
        "\<lparr>b_id = 1, b_game_id = 1, b_user_id = ''1001'', b_amount_cents = 5000,
            b_created_at = 100, b_status = Pending\<rparr>"]
      vote_rejected_without_record [of 1 pending_db world0 1 userC Approve
        "\<lparr>b_id = 1, b_game_id = 1, b_user_id = ''1001'', b_amount_cents = 5000,
            b_created_at = 100, b_status = Pending\<rparr>"]
      h played_request pending_request user_ids
    by simp
qed

section \<open>Amounts in minor units (C6)\<close>

lemma getGameById_insert_game:
  "getGameById (snd (insert_game db c t cents)) (next_rowid (map g_id (games db))) =
     Some \<lparr>g_id = next_rowid (map g_id (games db)), g_chat_id = c, g_status = Active,
            g_started_at = t, g_ended_at = None, g_buy_in_cents = cents,
            g_status_message_id = None\<rparr>"
proof -
  have "find (\<lambda>g. g_id g = next_rowid (map g_id (games db))) (games db) = None"
    using next_rowid_fresh [of _ "map g_id (games db)"] by (fastforce simp: find_None_iff)
  then show ?thesis
    by (simp add: getGameById_def insert_game_def Let_def find_snoc)
qed

lemma startGame_ok_amount:
  "ok (fst (startGame db w c a)) \<Longrightarrow> match_amount a = Some m \<Longrightarrow>
   fst (snd (startGame db w c a)) =
     snd (insert_game db c (w_now w) (toCents (parseFloat m))) \<or>
   (\<exists>pg. fst (snd (startGame db w c a)) =
     fst (snd (refreshGameMessage (snd (insert_game db c (w_now w) (toCents (parseFloat m))))
       w c pg True)))"
  by (auto simp: startGame_def Let_def split_def failure_def success_def
      split: option.splits if_splits)

lemma startGame_match:
  "ok (fst (startGame db w c a)) \<Longrightarrow> match_amount a = Some m \<Longrightarrow>
   map_option g_buy_in_cents
     (getGameById (fst (snd (startGame db w c a))) (next_rowid (map g_id (games db)))) =
   Some (toCents (parseFloat m))"
proof -
  assume a: "ok (fst (startGame db w c a))" and m: "match_amount a = Some m"
  let ?db1 = "snd (insert_game db c (w_now w) (toCents (parseFloat m)))"
  let ?gid = "next_rowid (map g_id (games db))"
  have new: "map_option g_buy_in_cents (getGameById ?db1 ?gid) = Some (toCents (parseFloat m))"
    by (simp only: getGameById_insert_game option.map GameRow.simps)
  from startGame_ok_amount [OF a m] show ?thesis
  proof
    assume "fst (snd (startGame db w c a)) = ?db1"
    then show ?thesis using new by simp
  next
    assume "\<exists>pg. fst (snd (startGame db w c a)) =
      fst (snd (refreshGameMessage ?db1 w c pg True))"
    then obtain pg where
      "fst (snd (startGame db w c a)) = fst (snd (refreshGameMessage ?db1 w c pg True))" ..
    then show ?thesis using new by (simp only: getGameById_refresh)
  qed
qed

lemma Math_round_bounds:
  "of_int (Math_round x) \<le> x + 1 / 2 \<and> x + 1 / 2 < of_int (Math_round x) + 1"
  unfolding Math_round_def by linarith

text \<open>
  C6, amended. When \<open>startGame\<close> succeeds, the amount text matched a number
  greater than zero and the new session stores \<open>toCents\<close> of the parsed number as
  its default amount. \<open>toCents\<close> is \<open>Math.round\<close> of the product with 100:
  the integer nearest to the product, and the upper neighbour when the product lies
  exactly halfway between two integers, whether that neighbour is even or odd.
\<close>

theorem minor_units_round_half_up:
  "(ok (fst (startGame db w c a)) \<longrightarrow>
      (\<exists>m. match_amount a = Some m \<and> 0 < parseFloat m \<and>
        map_option g_buy_in_cents
          (getGameById (fst (snd (startGame db w c a))) (next_rowid (map g_id (games db)))) =
        Some (toCents (parseFloat m))))
   \<and> toCents n = \<lfloor>fl (n * 100) + 1 / 2\<rfloor>
   \<and> of_int (toCents n) - 1 / 2 \<le> fl (n * 100)
   \<and> fl (n * 100) < of_int (toCents n) + 1 / 2
   \<and> (fl (n * 100) = of_int k + 1 / 2 \<longrightarrow> toCents n = k + 1)"
proof (intro conjI impI)
  assume a: "ok (fst (startGame db w c a))"
  then obtain m where m: "match_amount a = Some m" "0 < parseFloat m"
    by (auto simp: startGame_ok_iff)
  then show "\<exists>m. match_amount a = Some m \<and> 0 < parseFloat m \<and>
        map_option g_buy_in_cents
          (getGameById (fst (snd (startGame db w c a))) (next_rowid (map g_id (games db)))) =
        Some (toCents (parseFloat m))"
    using startGame_match [OF a m(1)] by blast
next
  show "toCents n = \<lfloor>fl (n * 100) + 1 / 2\<rfloor>"
    by (simp add: toCents_def Math_round_def)
next
  show "of_int (toCents n) - 1 / 2 \<le> fl (n * 100)"
    using Math_round_bounds [of "fl (n * 100)"] by (simp add: toCents_def)
next
  show "fl (n * 100) < of_int (toCents n) + 1 / 2"
    using Math_round_bounds [of "fl (n * 100)"] by (simp add: toCents_def)
next
  assume "fl (n * 100) = of_int k + 1 / 2"
  then have "fl (n * 100) + 1 / 2 = of_int (k + 1)" by simp
  then show "toCents n = k + 1"
    unfolding toCents_def Math_round_def by (metis floor_of_int)
qed

lemma scaled_50_125: "fl (401 / 8 * 100) = 5012 + 1 / 2"
  by code_simp

lemma cents_50_125: "toCents (parseFloat (''50'', ''125'')) = 5013"
  by code_simp

lemma pos_50_125: "0 < parseFloat (''50'', ''125'')"
  by code_simp

lemma decimal_50_125: "decimal_of (''50'', ''125'') = 401 / 8"
  by (simp add: decimal_of_def dec_value_def digit_val_def)

lemma half_even_50_125: "spec_minor_units (401 / 8) = 5012"
  by code_simp

text \<open>
  C6, counterexample. The claim has the scaling round a half to the even neighbour. The
  text 50.125 parses to a number whose product with 100 is exactly 5012.5; the session
  created from it stores 5013 minor units, where rounding half to even gives 5012.
\<close>

theorem minor_units_not_half_even:
  "map g_buy_in_cents (games (fst (snd (startGame empty_db world0 1 ''50.125'')))) = [5013] \<and>
   decimal_of (''50'', ''125'') * 100 = 5012 + 1 / 2 \<and>
   spec_minor_units (decimal_of (''50'', ''125'')) = 5012"
proof -
  have "map g_buy_in_cents (games (fst (snd (startGame empty_db world0 1 ''50.125'')))) = [5013]"
    by (simp add: world0_def eval_defs cents_50_125 pos_50_125)
  then show ?thesis
    unfolding decimal_50_125 half_even_50_125 by simp
qed

text \<open>
  C6, witness: the text 50 in the empty store gives a session with 5000 minor units, and
  the amount 50.125, whose product with 100 is halfway, gives 5013.
\<close>

theorem minor_units_round_half_up_witness:
  "map_option g_buy_in_cents (getGameById (fst (snd (startGame empty_db world0 1 ''50''))) 1) =
     Some 5000 \<and>
   toCents (401 / 8) = 5013"
proof -
  have h1: "ok (fst (startGame empty_db world0 1 ''50''))"
    by (simp add: startGame_ok_iff activeGames_def empty_db_def is_digit_def pos_50)
  have h2: "next_rowid (map g_id (games empty_db)) = 1"
    by (simp add: next_rowid_def empty_db_def)
  have h3: "match_amount ''50'' = Some (''50'', [])"
    by (simp add: is_digit_def)
  show ?thesis
    using minor_units_round_half_up [where db = empty_db and w = world0 and c = 1
        and a = "''50''" and n = "401 / 8" and k = 5012]
      h1 h2 h3 cents_50 scaled_50_125
    by auto
qed

section \<open>Order of the projected rows (C7)\<close>

lemma player_key_le:
  "player_key r \<le> player_key r' \<longleftrightarrow>
     pr_approved_cents r' < pr_approved_cents r \<or>
     pr_approved_cents r' = pr_approved_cents r \<and> pr_username r \<le> pr_username r'"
  by (auto simp: player_key_def less_eq_prod_def)

lemma playersData_ordered: "players_ordered (playersData db g)"
proof -
  have "sorted (map player_key (playersData db g))"
    unfolding playersData_def by (rule sorted_sort_key)
  then show ?thesis
    by (simp add: players_ordered_def sorted_map player_key_le)
qed

lemma playersData_ids:
  "mset (map pr_user_id (playersData db g)) =
   mset (map pl_user_id (filter (\<lambda>p. pl_game_id p = g) (players db)))"
proof -
  have "mset (map pr_user_id (playersData db g)) =
        mset (map pr_user_id (map (player_row db) (filter (\<lambda>p. pl_game_id p = g) (players db))))"
    unfolding playersData_def by (simp only: mset_map mset_sort)
  also have "map pr_user_id (map (player_row db) xs) = map pl_user_id xs" for xs
    by (simp add: player_row_def Let_def)
  finally show ?thesis .
qed

lemma roster_ids_distinct:
  "roster_unique db \<Longrightarrow> distinct (map pl_user_id (filter (\<lambda>p. pl_game_id p = g) (players db)))"
proof -
  assume "roster_unique db"
  then have "distinct (map (\<lambda>p. (pl_game_id p, pl_user_id p))
      (filter (\<lambda>p. pl_game_id p = g) (players db)))"
    unfolding roster_unique_def by (rule distinct_map_filter)
  then show ?thesis
    by (auto simp: distinct_map inj_on_def)
qed

lemma pendingData_ids:
  "mset (map pd_id (pendingData db g)) =
   mset (map b_id (filter (\<lambda>b. b_game_id b = g \<and> b_status b = Pending) (buyins db)))"
proof -
  have "mset (map pd_id (pendingData db g)) =
        mset (map pd_id (map (pending_row db)
          (filter (\<lambda>b. b_game_id b = g \<and> b_status b = Pending) (buyins db))))"
    unfolding pendingData_def by (simp only: mset_map mset_sort)
  also have "map pd_id (map (pending_row db) xs) = map b_id xs" for xs
    by (simp add: pending_row_def Let_def)
  finally show ?thesis .
qed

text \<open>
  C7, amended. The projected view has one player row per roster row of the session, and
  so one per distinct identity whenever the roster is unique per session and identity,
  as it is in every store reached from the empty one. The player rows are ordered by
  approved total descending and then by the stored handle ascending (the empty text for
  a participant without a handle). It has one pending row per pending request of the
  session, ordered by request id ascending.
\<close>

theorem projection_order:
  "players_ordered (st_players (composeGameState db g))
   \<and> mset (map pr_user_id (st_players (composeGameState db g))) =
       mset (map pl_user_id (filter (\<lambda>p. pl_game_id p = g) (players db)))
   \<and> (roster_unique db \<longrightarrow> distinct (map pr_user_id (st_players (composeGameState db g))))
   \<and> roster_unique (run empty_db evs)
   \<and> sorted (map pd_id (st_pending (composeGameState db g)))
   \<and> mset (map pd_id (st_pending (composeGameState db g))) =
       mset (map b_id (filter (\<lambda>b. b_game_id b = g \<and> b_status b = Pending) (buyins db)))"
proof (intro conjI impI)
  show "players_ordered (st_players (composeGameState db g))"
    by (simp add: composeGameState_def playersData_ordered)
  show "mset (map pr_user_id (st_players (composeGameState db g))) =
       mset (map pl_user_id (filter (\<lambda>p. pl_game_id p = g) (players db)))"
    by (simp only: composeGameState_def GameState.simps playersData_ids)
  show "roster_unique (run empty_db evs)"
    by (rule run_roster_unique) (rule empty_db_invariants)
  show "sorted (map pd_id (st_pending (composeGameState db g)))"
    by (simp add: composeGameState_def pendingData_def)
  show "mset (map pd_id (st_pending (composeGameState db g))) =
       mset (map b_id (filter (\<lambda>b. b_game_id b = g \<and> b_status b = Pending) (buyins db)))"
    by (simp only: composeGameState_def GameState.simps pendingData_ids)
next
  assume "roster_unique db"
  then have "distinct (map pl_user_id (filter (\<lambda>p. pl_game_id p = g) (players db)))"
    by (rule roster_ids_distinct)
  then have "distinct (map pr_user_id (playersData db g))"
    using playersData_ids [of db g] by (metis distinct_count_atmost_1 set_mset_mset mset_eq_setD)
  then show "distinct (map pr_user_id (st_players (composeGameState db g)))"
    by (simp add: composeGameState_def)
qed

text \<open>
  C7, counterexample. The claim orders player rows of equal total by display label. A
  game is started and joined by a participant with the handle bob and by one with no
  handle and the given name Zed. Both have total 0, and the row labelled Zed comes before
  the row labelled @bob, although @bob is the smaller label: the rows are ordered by the
  handle column, which is empty for Zed.
\<close>

theorem players_not_ordered_by_label:
  "run empty_db label_events = label_db \<and>
   map (\<lambda>r. displayName (pr_username r) (pr_first_name r) (pr_user_id r))
     (st_players (composeGameState label_db 1)) = [''Zed'', ''@bob''] \<and>
   map pr_approved_cents (st_players (composeGameState label_db 1)) = [0, 0] \<and>
   \<not> sorted (map spec_player_key (st_players (composeGameState label_db 1)))"
proof -
  have "run empty_db label_events = label_db"
    by (simp add: run_def label_events_def label_db_def world0_def eval_defs cents_50 pos_50)
  then show ?thesis
    by (simp add: composeGameState_def playersData_def player_row_def player_key_def
      spec_player_key_def label_db_def coalesce_def displayName_def less_eq_prod_def)
qed

text \<open>
  C7, witness: the store of the counterexample has a unique roster; its two player rows
  have distinct identities and are ordered by handle, the empty handle first.
\<close>

theorem projection_order_witness:
  "distinct (map pr_user_id (st_players (composeGameState label_db 1))) \<and>
   players_ordered (st_players (composeGameState label_db 1)) \<and>
   map pr_username (st_players (composeGameState label_db 1)) = ['''', ''bob'']"
proof -
  have h1: "roster_unique label_db"
    by (simp add: roster_unique_def label_db_def)
  have h2: "map pr_username (st_players (composeGameState label_db 1)) = ['''', ''bob'']"
    by (simp add: composeGameState_def playersData_def player_row_def player_key_def
        label_db_def coalesce_def less_eq_prod_def)
  show ?thesis
    using projection_order [where db = label_db and g = 1] h1 h2 by simp
qed

section \<open>Publishing never fails the operation (C8)\<close>

lemma count_insert_approval:
  "count_decision (insert_approval db i v d t) j d' =
   count_decision db j d' + (if \<not> has_vote db i v \<and> i = j \<and> d = d' then 1 else 0)"
  by (simp add: count_decision_def insert_approval_def)

lemma resolve_outcome_clock:
  "snd (resolve_buyin (insert_approval db i v d t) i) =
   snd (resolve_buyin (insert_approval db i v d t') i)"
  by (simp add: resolve_buyin_def Let_def count_insert_approval)

lemma startGame_result_world: "fst (startGame db w c a) = fst (startGame db w' c a)"
  by (simp add: startGame_def Let_def split_def split: option.splits)

lemma joinGame_result_world: "fst (joinGame db w c u) = fst (joinGame db w' c u)"
  by (simp add: joinGame_def Let_def split_def split: option.splits)

lemma buyIn_result_world: "fst (buyIn db w c u a) = fst (buyIn db w' c u a)"
  by (simp add: buyIn_def Let_def split_def split: option.splits sum.splits)

lemma processApproval_result_world:
  "fst (processApproval db w c i u d) = fst (processApproval db w' c i u d)"
  using resolve_outcome_clock [of db i "js_String (u_id u)" d "w_now w" "w_now w'"]
  by (simp add: processApproval_def Let_def split_def split: option.splits)

lemma endGame_result_world: "fst (endGame db w c) = fst (endGame db w' c)"
  by (simp add: endGame_def Let_def split_def split: option.splits)

lemma joinGame_ok_iff:
  "ok (fst (joinGame db w c u)) \<longleftrightarrow>
   (\<exists>game. currentGame db c = Some game \<and>
      find_player db (g_id game) (js_String (u_id u)) = None)"
  by (auto simp: joinGame_def Let_def split_def failure_def success_def split: option.splits)

lemma buyIn_ok_iff:
  "ok (fst (buyIn db w c u a)) \<longleftrightarrow>
   (\<exists>game cents. currentGame db c = Some game \<and>
      find_player db (g_id game) (js_String (u_id u)) \<noteq> None \<and>
      buyin_cents game a = Inr cents \<and> 0 < cents)"
  by (auto simp: buyIn_def Let_def split_def failure_def success_def
      split: option.splits sum.splits)

lemma endGame_ok_iff: "ok (fst (endGame db w c)) \<longleftrightarrow> currentGame db c \<noteq> None"
  by (auto simp: endGame_def Let_def split_def failure_def success_def split: option.splits)

lemma joinGame_success:
  "currentGame db c = Some game \<Longrightarrow> find_player db (g_id game) (js_String (u_id u)) = None \<Longrightarrow>
   fst (joinGame db w c u) = success ''Joined the game.''"
  by (simp add: joinGame_def Let_def split_def)

lemma refresh_edit_failed:
  assumes "g_status_message_id game = Some m" and "\<not> w_edit_ok w"
  shows "refreshGameMessage db w c (Some game) False =
           (False, db, [EditMessageText m (status_payload db c game)])"
    and "w_send w = TgResult (Some n) \<Longrightarrow> n \<noteq> 0 \<Longrightarrow>
         refreshGameMessage db w c (Some game) True =
           (True, update_status_message db (g_id game) n,
            [EditMessageText m (status_payload db c game), SendMessage (status_payload db c game)])"
    and "w_send w = TgError \<Longrightarrow>
         refreshGameMessage db w c (Some game) True =
           (False, db,
            [EditMessageText m (status_payload db c game), SendMessage (status_payload db c game)])"
  using assms by (simp_all add: refreshGameMessage_def sendStatus_def Let_def)

lemma recorded_on_rows:
  "games (update_status_message db i n) =
   map (\<lambda>g. if g_id g = i then g\<lparr>g_status_message_id := Some n\<rparr> else g) (games db)"
  by (simp add: update_status_message_def)

lemma recorded_on_session:
  "getGameById db i \<noteq> None \<Longrightarrow>
   map_option g_status_message_id (getGameById (update_status_message db i n) i) = Some (Some n)"
proof -
  assume "getGameById db i \<noteq> None"
  then obtain g0 where g0: "find (\<lambda>g. g_id g = i) (games db) = Some g0"
    by (auto simp: getGameById_def)
  then have "g_id g0 = i" by (auto simp: find_Some_iff)
  then show ?thesis using g0
    by (simp add: getGameById_def update_status_message_def find_map_msg)
qed

text \<open>
  C8. What an operation reports to its caller does not depend on the outside world: for
  the same store and arguments, start, join, buy-in, vote and end return the same result
  whatever the Telegram API answers (and whatever the clock shows), and each reports
  success exactly when its checks on the store and its arguments pass; a join whose
  checks pass reports that the user joined. In \<open>refreshGameMessage\<close>, when the
  session has a status message and editing it fails: a caller that disallows creation
  gets failure, the store is unchanged and no message is sent; otherwise a new message
  is sent, and when the API returns its identifier the result is success, while a failed
  send leaves the store unchanged. In the store after a successful send, the row of the
  session carries the new identifier as its status message and every other row of the
  table of games is as before; read back by its id, a session that is in the store has
  the new identifier.
\<close>

theorem publish_failure_not_fatal:
  "fst (startGame db w c a) = fst (startGame db w' c a)
   \<and> fst (joinGame db w c u) = fst (joinGame db w' c u)
   \<and> fst (buyIn db w c u t) = fst (buyIn db w' c u t)
   \<and> fst (processApproval db w c i u d) = fst (processApproval db w' c i u d)
   \<and> fst (endGame db w c) = fst (endGame db w' c)
   \<and> ok (fst (startGame db w c a)) =
       (activeGames db c = [] \<and> (\<exists>m. match_amount a = Some m \<and> 0 < parseFloat m))
   \<and> ok (fst (joinGame db w c u)) =
       (\<exists>g. currentGame db c = Some g \<and> find_player db (g_id g) (js_String (u_id u)) = None)
   \<and> ok (fst (buyIn db w c u t)) =
       (\<exists>g cents. currentGame db c = Some g \<and>
          find_player db (g_id g) (js_String (u_id u)) \<noteq> None \<and>
          buyin_cents g t = Inr cents \<and> 0 < cents)
   \<and> ok (fst (processApproval db w c i u d)) =
       (i \<noteq> 0 \<and> (\<exists>b. find_buyin db i = Some b \<and> b_status b = Pending \<and>
          b_user_id b \<noteq> js_String (u_id u) \<and>
          find_player db (b_game_id b) (js_String (u_id u)) \<noteq> None))
   \<and> ok (fst (endGame db w c)) = (currentGame db c \<noteq> None)
   \<and> (currentGame db c = Some game \<and> find_player db (g_id game) (js_String (u_id u)) = None \<longrightarrow>
        fst (joinGame db w c u) = success ''Joined the game.'')
   \<and> (g_status_message_id game = Some m \<and> \<not> w_edit_ok w \<longrightarrow>
        refreshGameMessage db w c (Some game) False =
          (False, db, [EditMessageText m (status_payload db c game)])
        \<and> (w_send w = TgResult (Some n) \<and> n \<noteq> 0 \<longrightarrow>
             refreshGameMessage db w c (Some game) True =
               (True, update_status_message db (g_id game) n,
                [EditMessageText m (status_payload db c game),
                 SendMessage (status_payload db c game)]))
        \<and> (w_send w = TgError \<longrightarrow>
             refreshGameMessage db w c (Some game) True =
               (False, db,
                [EditMessageText m (status_payload db c game),
                 SendMessage (status_payload db c game)])))
   \<and> (g_status_message_id game = Some m \<and> \<not> w_edit_ok w \<and>
       w_send w = TgResult (Some n) \<and> n \<noteq> 0 \<longrightarrow>
        games (fst (snd (refreshGameMessage db w c (Some game) True))) =
          map (\<lambda>g. if g_id g = g_id game then g\<lparr>g_status_message_id := Some n\<rparr> else g)
            (games db)
        \<and> (getGameById db (g_id game) \<noteq> None \<longrightarrow>
             map_option g_status_message_id
               (getGameById (fst (snd (refreshGameMessage db w c (Some game) True))) (g_id game)) =
             Some (Some n)))"
proof (intro conjI impI)
  show "fst (startGame db w c a) = fst (startGame db w' c a)"
    by (rule startGame_result_world)
  show "fst (joinGame db w c u) = fst (joinGame db w' c u)"
    by (rule joinGame_result_world)
  show "fst (buyIn db w c u t) = fst (buyIn db w' c u t)"
    by (rule buyIn_result_world)
  show "fst (processApproval db w c i u d) = fst (processApproval db w' c i u d)"
    by (rule processApproval_result_world)
  show "fst (endGame db w c) = fst (endGame db w' c)"
    by (rule endGame_result_world)
  show "ok (fst (startGame db w c a)) =
       (activeGames db c = [] \<and> (\<exists>m. match_amount a = Some m \<and> 0 < parseFloat m))"
    by (rule startGame_ok_iff)
  show "ok (fst (joinGame db w c u)) =
       (\<exists>g. currentGame db c = Some g \<and> find_player db (g_id g) (js_String (u_id u)) = None)"
    by (rule joinGame_ok_iff)
  show "ok (fst (buyIn db w c u t)) =
       (\<exists>g cents. currentGame db c = Some g \<and>
          find_player db (g_id g) (js_String (u_id u)) \<noteq> None \<and>
          buyin_cents g t = Inr cents \<and> 0 < cents)"
    by (rule buyIn_ok_iff)
  show "ok (fst (processApproval db w c i u d)) =
       (i \<noteq> 0 \<and> (\<exists>b. find_buyin db i = Some b \<and> b_status b = Pending \<and>
          b_user_id b \<noteq> js_String (u_id u) \<and>
          find_player db (b_game_id b) (js_String (u_id u)) \<noteq> None))"
    by (rule processApproval_ok_iff)
  show "ok (fst (endGame db w c)) = (currentGame db c \<noteq> None)"
    by (rule endGame_ok_iff)
next
  assume "currentGame db c = Some game \<and>
    find_player db (g_id game) (js_String (u_id u)) = None"
  then show "fst (joinGame db w c u) = success ''Joined the game.''"
    by (simp add: joinGame_success)
next
  assume a: "g_status_message_id game = Some m \<and> \<not> w_edit_ok w"
  then show "refreshGameMessage db w c (Some game) False =
      (False, db, [EditMessageText m (status_payload db c game)])"
    by (simp add: refresh_edit_failed(1))
next
  assume a: "g_status_message_id game = Some m \<and> \<not> w_edit_ok w"
    and b: "w_send w = TgResult (Some n) \<and> n \<noteq> 0"
  then show "refreshGameMessage db w c (Some game) True =
      (True, update_status_message db (g_id game) n,
       [EditMessageText m (status_payload db c game), SendMessage (status_payload db c game)])"
    by (simp add: refresh_edit_failed(2))
next
  assume a: "g_status_message_id game = Some m \<and> \<not> w_edit_ok w"
    and b: "w_send w = TgError"
  then show "refreshGameMessage db w c (Some game) True =
      (False, db,
       [EditMessageText m (status_payload db c game), SendMessage (status_payload db c game)])"
    by (simp add: refresh_edit_failed(3))
next
  assume a: "g_status_message_id game = Some m \<and> \<not> w_edit_ok w \<and>
       w_send w = TgResult (Some n) \<and> n \<noteq> 0"
  then have e: "fst (snd (refreshGameMessage db w c (Some game) True)) =
      update_status_message db (g_id game) n"
    by (simp add: refresh_edit_failed(2))
  show "games (fst (snd (refreshGameMessage db w c (Some game) True))) =
          map (\<lambda>g. if g_id g = g_id game then g\<lparr>g_status_message_id := Some n\<rparr> else g)
            (games db)"
    by (simp only: e recorded_on_rows)
  assume ne: "getGameById db (g_id game) \<noteq> None"
  from recorded_on_session [OF ne, of n]
  show "map_option g_status_message_id
               (getGameById (fst (snd (refreshGameMessage db w c (Some game) True))) (g_id game)) =
             Some (Some n)"
    by (simp only: e)
qed

text \<open>
  C8, witness: with the API down a new participant's join still reports success; a
  publish without permission to create only attempts the edit; with a stale message the
  publish sends a new one, and the session, which had message 7, has message 8 in the
  store afterwards; with the API down it records nothing.
\<close>

theorem publish_failure_not_fatal_witness:
  "fst (joinGame played_db world_down 1 userC) = success ''Joined the game.'' \<and>
   refreshGameMessage played_db world_down 1 (Some game1) False =
     (False, played_db, [EditMessageText 7 (status_payload played_db 1 game1)]) \<and>
   refreshGameMessage played_db world_stale 1 (Some game1) True =
     (True, update_status_message played_db 1 8,
      [EditMessageText 7 (status_payload played_db 1 game1),
       SendMessage (status_payload played_db 1 game1)]) \<and>
   refreshGameMessage played_db world_down 1 (Some game1) True =
     (False, played_db,
      [EditMessageText 7 (status_payload played_db 1 game1),
       SendMessage (status_payload played_db 1 game1)]) \<and>
   map g_status_message_id (games played_db) = [Some 7] \<and>
   map g_status_message_id
     (games (fst (snd (refreshGameMessage played_db world_stale 1 (Some game1) True)))) =
     [Some 8] \<and>
   map_option g_status_message_id
     (getGameById (fst (snd (refreshGameMessage played_db world_stale 1 (Some game1) True))) 1) =
     Some (Some 8)"
proof -
  have h1: "find_player played_db (g_id game1) (js_String (u_id userC)) = None"
    by (simp add: user_ids find_player_def played_db_def game1_def)
  have h2: "g_status_message_id game1 = Some 7" "g_id game1 = 1"
    by (simp_all add: game1_def)
  have h3: "\<not> w_edit_ok world_down" "w_send world_down = TgError"
    "\<not> w_edit_ok world_stale" "w_send world_stale = TgResult (Some 8)"
    by (simp_all add: world_down_def world_stale_def)
  have h4: "getGameById played_db (g_id game1) \<noteq> None"
    "map g_status_message_id (games played_db) = [Some 7]"
    by (simp_all add: getGameById_def played_db_def game1_def)
  have h5: "map g_status_message_id
       (map (\<lambda>g. if g_id g = g_id game1 then g\<lparr>g_status_message_id := Some 8\<rparr> else g)
          (games played_db)) = [Some 8]"
    by (simp add: played_db_def game1_def)
  note down = publish_failure_not_fatal [where db = played_db and w = world_down and c = 1
      and u = userC and game = game1 and m = 7]
  note stale = publish_failure_not_fatal [where db = played_db and w = world_stale and c = 1
      and game = game1 and m = 7 and n = 8 and w' = world_stale and u = userC and i = 0
      and a = "[]" and d = Approve and t = None]
  have joined: "fst (joinGame played_db world_down 1 userC) = success ''Joined the game.''"
    using down h1 current_played by blast
  have edit_only: "refreshGameMessage played_db world_down 1 (Some game1) False =
     (False, played_db, [EditMessageText 7 (status_payload played_db 1 game1)])"
    using down h2 h3 by blast
  have unsent: "refreshGameMessage played_db world_down 1 (Some game1) True =
     (False, played_db,
      [EditMessageText 7 (status_payload played_db 1 game1),
       SendMessage (status_payload played_db 1 game1)])"
    using down h2 h3 by blast
  have sent: "refreshGameMessage played_db world_stale 1 (Some game1) True =
     (True, update_status_message played_db (g_id game1) 8,
      [EditMessageText 7 (status_payload played_db 1 game1),
       SendMessage (status_payload played_db 1 game1)])"
    using stale h2 h3 by simp
  have recorded: "g_status_message_id game1 = Some 7 \<and> \<not> w_edit_ok world_stale \<and>
       w_send world_stale = TgResult (Some 8) \<and> (8::int) \<noteq> 0 \<longrightarrow>
        games (fst (snd (refreshGameMessage played_db world_stale 1 (Some game1) True))) =
          map (\<lambda>g. if g_id g = g_id game1 then g\<lparr>g_status_message_id := Some 8\<rparr> else g)
            (games played_db)
        \<and> (getGameById played_db (g_id game1) \<noteq> None \<longrightarrow>
             map_option g_status_message_id
               (getGameById (fst (snd (refreshGameMessage played_db world_stale 1 (Some game1) True))) (g_id game1)) =
             Some (Some 8))"
    using stale by (elim conjE)
  have rows: "games (fst (snd (refreshGameMessage played_db world_stale 1 (Some game1) True))) =
      map (\<lambda>g. if g_id g = g_id game1 then g\<lparr>g_status_message_id := Some 8\<rparr> else g)
        (games played_db)"
    using recorded h2(1) h3(3,4) by simp
  have read: "map_option g_status_message_id
     (getGameById (fst (snd (refreshGameMessage played_db world_stale 1 (Some game1) True)))
        (g_id game1)) = Some (Some 8)"
    using recorded h2(1) h3(3,4) h4(1) by simp
  have rows8: "map g_status_message_id
     (games (fst (snd (refreshGameMessage played_db world_stale 1 (Some game1) True)))) = [Some 8]"
    by (simp only: rows h5)
  have read1: "map_option g_status_message_id
     (getGameById (fst (snd (refreshGameMessage played_db world_stale 1 (Some game1) True))) 1) =
     Some (Some 8)"
    using read by (simp only: h2(2))
  have sent1: "refreshGameMessage played_db world_stale 1 (Some game1) True =
     (True, update_status_message played_db 1 8,
      [EditMessageText 7 (status_payload played_db 1 game1),
       SendMessage (status_payload played_db 1 game1)])"
    using sent by (simp only: h2(2))
  show ?thesis
    by (intro conjI joined edit_only sent1 unsent h4(2) rows8 read1)
qed

section \<open>After the end of a session (C9)\<close>




















section \<open>Fallback labels (C10)\<close>

text \<open>
  C10. For a participant with neither a handle nor a given name the label is the
  identity text itself when it has at most four characters; only a longer identity is
  masked, as its first two characters, the literal three asterisks and its last two
  characters (seven characters in all). So an identity of four characters or fewer is
  shown unredacted.
\<close>

theorem displayName_fallback_mask:
  "displayName [] [] s =
     (if length s \<le> 4 then s
      else [s ! 0, s ! 1] @ ''***'' @ [s ! (length s - 2), s ! (length s - 1)])
   \<and> length (displayName [] [] s) = (if length s \<le> 4 then length s else 7)"
proof (cases "length s \<le> 4")
  case True
  then show ?thesis by (simp add: displayName_def maskUser_def)
next
  case False
  then have len: "4 < length s" by simp
  have front: "take 2 s = [s ! 0, s ! 1]"
  proof (cases s)
    case Nil
    then show ?thesis using len by simp
  next
    case (Cons x t)
    then show ?thesis using len by (cases t) simp_all
  qed
  have "length s - 2 < length s" using len by simp
  then have a: "drop (length s - 2) s = s ! (length s - 2) # drop (Suc (length s - 2)) s"
    by (rule Cons_nth_drop_Suc [symmetric])
  have b: "Suc (length s - 2) = length s - 1" using len by simp
  have "length s - 1 < length s" using len by simp
  then have c: "drop (length s - 1) s = s ! (length s - 1) # drop (Suc (length s - 1)) s"
    by (rule Cons_nth_drop_Suc [symmetric])
  have d: "drop (Suc (length s - 1)) s = []" using len by simp
  have rear: "drop (length s - 2) s = [s ! (length s - 2), s ! (length s - 1)]"
    using a b c d by simp
  show ?thesis using False front rear
    by (simp add: displayName_def maskUser_def)
qed

end
